theory Spec2Isabelle
  imports Main "HOL-Library.Word" "HOL-Library.AList"
begin

section \<open>The disk archive: a guest file system realised on the host\<close>

text \<open>
  The development embeds \<^verbatim>\<open>core/file_sys/disk_archive.cpp\<close>: the archive backend
  (\<^verbatim>\<open>DiskArchive\<close>), the file backend (\<^verbatim>\<open>DiskFile\<close>) and the directory backend
  (\<^verbatim>\<open>DiskDirectory\<close>). Every function threads the state of the host explicitly: it
  takes the host state and returns the new one next to its C++ return value.
\<close>

subsection \<open>Value types\<close>

type_synonym u8 = "8 word"
type_synonym u32 = "32 word"
type_synonym u64 = "64 word"

text \<open>
  Modelled from the spec: the result model of \<^verbatim>\<open>core/hle/result.h\<close>, which is not among
  the sources. A result code has four orthogonal fields (description, module, summary,
  level) and success is a distinguished singleton. Only the enumerators that
  \<^verbatim>\<open>disk_archive.cpp\<close> names are listed.
\<close>

datatype ErrorDescription =
  FS_NotAFile | FS_NotFound | FS_AlreadyExists | FS_InvalidOpenFlags | TooLarge

datatype ErrorModule = FS

datatype ErrorSummary = Canceled | NotFound | NothingHappened | OutOfResource

datatype ErrorLevel = Status | Info

datatype ResultCode =
  RESULT_SUCCESS
| ResultCode ErrorDescription ErrorModule ErrorSummary ErrorLevel

text \<open>
  Modelled from the spec: \<^verbatim>\<open>ResultCode::IsError\<close> (declared in \<^verbatim>\<open>core/hle/result.h\<close>):
  a result code is an error when it is not the success singleton.
\<close>

definition IsError :: "ResultCode \<Rightarrow> bool" where
  "IsError r = (r \<noteq> RESULT_SUCCESS)"

text \<open>
  Modelled from the spec: \<^verbatim>\<open>FileSys::Path\<close> (declared in
  \<^verbatim>\<open>core/file_sys/archive_backend.h\<close>) is an opaque guest path that exposes a flattened
  string form, \<^verbatim>\<open>AsString()\<close>.
\<close>

datatype Path = Path (AsString: string)

text \<open>
  Modelled from the spec: \<^verbatim>\<open>FileSys::Mode\<close> has three independent flags.
\<close>

record Mode =
  read_flag :: bool
  write_flag :: bool
  create_flag :: bool

text \<open>The second argument of \<^verbatim>\<open>IOFile::Seek\<close>, from \<^verbatim>\<open><cstdio>\<close>.\<close>

datatype SeekOrigin = SEEK_SET | SEEK_CUR | SEEK_END

text \<open>
  \<^verbatim>\<open>FileUtil::FSTEntry\<close>, the node of a scanned directory tree (declared in
  \<^verbatim>\<open>common/file_util.h\<close>); the field \<^verbatim>\<open>size\<close> is \<open>sizeF\<close> here.
\<close>

datatype FSTEntry =
  FSTEntry (isDirectory: bool) (sizeF: u64) (physicalName: string) (virtualName: string)
    (children: "FSTEntry list")

text \<open>
  \<^verbatim>\<open>FileSys::Entry\<close>, the record a directory listing produces. The field \<open>filename\<close>
  holds the characters the copy loop of \<^verbatim>\<open>DiskDirectory::Read\<close> stores, in order;
  the four attribute bytes are booleans.
\<close>

record Entry =
  filename :: string
  short_name :: string
  extension :: string
  is_directory :: bool
  is_hidden :: bool
  is_read_only :: bool
  is_archive :: bool
  file_size :: u64

subsection \<open>The host interface\<close>

text \<open>
  \<^verbatim>\<open>common/file_util.h\<close> is not among the sources, so the host is a parameter: a record
  of the \<^verbatim>\<open>FileUtil\<close> operations that \<^verbatim>\<open>disk_archive.cpp\<close> calls, over an arbitrary
  type \<open>'h\<close> of host states and an arbitrary type \<open>'f\<close> of \<^verbatim>\<open>IOFile\<close> objects. The two
  queries only read the state; every other call returns the state it leaves.
  \<open>IOFile\<close> is the constructor \<^verbatim>\<open>IOFile(filename, openmode)\<close> and \<open>IOFile_dtor\<close> the
  destructor, which runs when an \<^verbatim>\<open>IOFile\<close> goes out of scope. Every theorem below
  holds for every host.
\<close>

record ('h, 'f) FileUtil =
  IsDirectory :: "'h \<Rightarrow> string \<Rightarrow> bool"
  Exists :: "'h \<Rightarrow> string \<Rightarrow> bool"
  Delete :: "'h \<Rightarrow> string \<Rightarrow> bool \<times> 'h"
  DeleteDir :: "'h \<Rightarrow> string \<Rightarrow> bool \<times> 'h"
  Rename :: "'h \<Rightarrow> string \<Rightarrow> string \<Rightarrow> bool \<times> 'h"
  CreateEmptyFile :: "'h \<Rightarrow> string \<Rightarrow> bool \<times> 'h"
  CreateDir :: "'h \<Rightarrow> string \<Rightarrow> bool \<times> 'h"
  ScanDirectoryTree :: "'h \<Rightarrow> string \<Rightarrow> FSTEntry \<Rightarrow> u32 \<times> FSTEntry"
  SplitFilename83 :: "string \<Rightarrow> string \<times> string"
  IOFile :: "'h \<Rightarrow> string \<Rightarrow> string \<Rightarrow> 'f \<times> 'h"
  IOFile_dtor :: "'h \<Rightarrow> 'f \<Rightarrow> 'h"
  IsOpen :: "'h \<Rightarrow> 'f \<Rightarrow> bool"
  Seek :: "'h \<Rightarrow> 'f \<Rightarrow> u64 \<Rightarrow> SeekOrigin \<Rightarrow> bool \<times> 'h"
  ReadBytes :: "'h \<Rightarrow> 'f \<Rightarrow> nat \<Rightarrow> (nat \<times> u8 list) \<times> 'h"
  WriteBytes :: "'h \<Rightarrow> 'f \<Rightarrow> u8 list \<Rightarrow> nat \<Rightarrow> nat \<times> 'h"
  Flush :: "'h \<Rightarrow> 'f \<Rightarrow> 'h"

subsection \<open>The result codes the archive returns\<close>

definition E_NotAFile :: ResultCode where
  "E_NotAFile = ResultCode FS_NotAFile FS Canceled Status"

definition E_NotFound :: ResultCode where
  "E_NotFound = ResultCode FS_NotFound FS NotFound Status"

definition E_AlreadyExists :: ResultCode where
  "E_AlreadyExists = ResultCode FS_AlreadyExists FS NothingHappened Status"

definition E_InvalidOpenFlags :: ResultCode where
  "E_InvalidOpenFlags = ResultCode FS_InvalidOpenFlags FS Canceled Status"

definition E_TooLarge :: ResultCode where
  "E_TooLarge = ResultCode TooLarge FS OutOfResource Info"

subsection \<open>DiskArchive: operations on paths\<close>

text \<open>
  An archive is its \<^verbatim>\<open>mount_point\<close>, the first argument after the host. A trailing
  \<open>h\<close> is the host state before the call.
\<close>

definition DeleteFile ::
  "('h, 'f) FileUtil \<Rightarrow> string \<Rightarrow> 'h \<Rightarrow> Path \<Rightarrow> ResultCode \<times> 'h" where
  "DeleteFile fu mount_point h path =
     (let file_path = mount_point @ AsString path in
      if IsDirectory fu h file_path then (E_NotAFile, h)
      else if \<not> Exists fu h file_path then (E_NotFound, h)
      else (case Delete fu h file_path of
              (ok, h') \<Rightarrow> if ok then (RESULT_SUCCESS, h') else (E_NotAFile, h')))"

definition RenameFile ::
  "('h, 'f) FileUtil \<Rightarrow> string \<Rightarrow> 'h \<Rightarrow> Path \<Rightarrow> Path \<Rightarrow> bool \<times> 'h" where
  "RenameFile fu mount_point h src_path dest_path =
     Rename fu h (mount_point @ AsString src_path) (mount_point @ AsString dest_path)"

definition DeleteDirectory ::
  "('h, 'f) FileUtil \<Rightarrow> string \<Rightarrow> 'h \<Rightarrow> Path \<Rightarrow> bool \<times> 'h" where
  "DeleteDirectory fu mount_point h path = DeleteDir fu h (mount_point @ AsString path)"

text \<open>
  In \<^verbatim>\<open>CreateFile\<close> the local \<^verbatim>\<open>IOFile file(full_path, "wb")\<close> is destroyed on both
  returns that follow it; \<^verbatim>\<open>&&\<close> evaluates the write only after a successful seek.
  The literal \<^verbatim>\<open>""\<close> written with length 1 is one zero byte. The parameter
  \<^verbatim>\<open>size\<close> is \<open>sz\<close>, and \<^verbatim>\<open>length\<close> is \<open>len\<close> further down.
\<close>

definition CreateFile ::
  "('h, 'f) FileUtil \<Rightarrow> string \<Rightarrow> 'h \<Rightarrow> Path \<Rightarrow> u64 \<Rightarrow> ResultCode \<times> 'h" where
  "CreateFile fu mount_point h path sz =
     (let full_path = mount_point @ AsString path in
      if IsDirectory fu h full_path then (E_NotAFile, h)
      else if Exists fu h full_path then (E_AlreadyExists, h)
      else if sz = 0 then (RESULT_SUCCESS, snd (CreateEmptyFile fu h full_path))
      else (case IOFile fu h full_path ''wb'' of
              (file, h1) \<Rightarrow>
                (case Seek fu h1 file (sz - 1) SEEK_SET of
                   (seek_ok, h2) \<Rightarrow>
                     if seek_ok
                     then (case WriteBytes fu h2 file [0] 1 of
                             (written, h3) \<Rightarrow>
                               if written = 1 then (RESULT_SUCCESS, IOFile_dtor fu h3 file)
                               else (E_TooLarge, IOFile_dtor fu h3 file))
                     else (E_TooLarge, IOFile_dtor fu h2 file))))"

definition CreateDirectory ::
  "('h, 'f) FileUtil \<Rightarrow> string \<Rightarrow> 'h \<Rightarrow> Path \<Rightarrow> bool \<times> 'h" where
  "CreateDirectory fu mount_point h path = CreateDir fu h (mount_point @ AsString path)"

definition RenameDirectory ::
  "('h, 'f) FileUtil \<Rightarrow> string \<Rightarrow> 'h \<Rightarrow> Path \<Rightarrow> Path \<Rightarrow> bool \<times> 'h" where
  "RenameDirectory fu mount_point h src_path dest_path =
     Rename fu h (mount_point @ AsString src_path) (mount_point @ AsString dest_path)"

definition GetFreeBytes :: u64 where
  "GetFreeBytes = 1024 * 1024 * 1024"

subsection \<open>DiskFile\<close>

text \<open>
  A \<^verbatim>\<open>DiskFile\<close> holds the resolved host path, the mode and \<^verbatim>\<open>file\<close> (here
  \<open>iofile\<close>), a \<^verbatim>\<open>unique_ptr<IOFile>\<close> that is null (\<open>None\<close>) until \<^verbatim>\<open>Open\<close>
  assigns it.
\<close>

record 'f DiskFile =
  path :: string
  mode :: Mode
  iofile :: "'f option"

definition DiskFile_ctor :: "string \<Rightarrow> Path \<Rightarrow> Mode \<Rightarrow> 'f DiskFile" where
  "DiskFile_ctor mount_point p m =
     \<lparr>path = mount_point @ AsString p, mode = m, iofile = None\<rparr>"

definition mode_string :: "Mode \<Rightarrow> string" where
  "mode_string m =
     (if write_flag m then ''r+'' else if read_flag m then ''r'' else '''') @ ''b''"

text \<open>
  Assigning a new \<^verbatim>\<open>IOFile\<close> to \<^verbatim>\<open>file\<close> destroys the object it held before, if any.
\<close>

definition reset_file :: "('h, 'f) FileUtil \<Rightarrow> 'h \<Rightarrow> 'f option \<Rightarrow> 'h" where
  "reset_file fu h old = (case old of None \<Rightarrow> h | Some f0 \<Rightarrow> IOFile_dtor fu h f0)"

definition DiskFile_Open ::
  "('h, 'f) FileUtil \<Rightarrow> 'h \<Rightarrow> 'f DiskFile \<Rightarrow> ResultCode \<times> 'f DiskFile \<times> 'h" where
  "DiskFile_Open fu h d =
     (if IsDirectory fu h (path d) then (E_NotAFile, d, h)
      else if create_flag (mode d) \<and> \<not> read_flag (mode d) \<and> \<not> write_flag (mode d)
      then (E_InvalidOpenFlags, d, h)
      else if \<not> Exists fu h (path d) \<and> \<not> create_flag (mode d) then (E_NotFound, d, h)
      else
        (let h1 = (if \<not> Exists fu h (path d) then snd (CreateEmptyFile fu h (path d)) else h)
         in case IOFile fu h1 (path d) (mode_string (mode d)) of
              (f, h2) \<Rightarrow>
                (let h3 = reset_file fu h2 (iofile d); d' = d\<lparr>iofile := Some f\<rparr>
                 in if IsOpen fu h3 f then (RESULT_SUCCESS, d', h3)
                    else (E_NotFound, d', h3))))"

text \<open>
  \<^verbatim>\<open>OpenFile\<close> builds the handle and opens it. On an error the handle is destroyed
  with whatever \<^verbatim>\<open>IOFile\<close> it holds.
\<close>

definition OpenFile ::
  "('h, 'f) FileUtil \<Rightarrow> string \<Rightarrow> 'h \<Rightarrow> Path \<Rightarrow> Mode \<Rightarrow> (ResultCode + 'f DiskFile) \<times> 'h" where
  "OpenFile fu mount_point h p m =
     (case DiskFile_Open fu h (DiskFile_ctor mount_point p m) of
        (result, d, h') \<Rightarrow>
          if IsError result then (Inl result, reset_file fu h' (iofile d))
          else (Inr d, h'))"

text \<open>
  \<^verbatim>\<open>Read\<close> and \<^verbatim>\<open>Write\<close> dereference \<^verbatim>\<open>file\<close> after the check of the flags; on a
  handle that was never opened this is undefined behaviour, the value \<open>None\<close>. The
  bytes read are returned with their count.
\<close>

definition DiskFile_Read ::
  "('h, 'f) FileUtil \<Rightarrow> 'h \<Rightarrow> 'f DiskFile \<Rightarrow> u64 \<Rightarrow> nat
     \<Rightarrow> (ResultCode + nat \<times> u8 list) option \<times> 'h" where
  "DiskFile_Read fu h d offset len =
     (if \<not> read_flag (mode d) \<and> \<not> write_flag (mode d) then (Some (Inl E_InvalidOpenFlags), h)
      else (case iofile d of
              None \<Rightarrow> (None, h)
            | Some f \<Rightarrow>
                (case Seek fu h f offset SEEK_SET of
                   (_, h1) \<Rightarrow>
                     (case ReadBytes fu h1 f len of
                        (r, h2) \<Rightarrow> (Some (Inr r), h2)))))"

definition DiskFile_Write ::
  "('h, 'f) FileUtil \<Rightarrow> 'h \<Rightarrow> 'f DiskFile \<Rightarrow> u64 \<Rightarrow> nat \<Rightarrow> bool \<Rightarrow> u8 list
     \<Rightarrow> (ResultCode + nat) option \<times> 'h" where
  "DiskFile_Write fu h d offset len flush buffer =
     (if \<not> write_flag (mode d) then (Some (Inl E_InvalidOpenFlags), h)
      else (case iofile d of
              None \<Rightarrow> (None, h)
            | Some f \<Rightarrow>
                (case Seek fu h f offset SEEK_SET of
                   (_, h1) \<Rightarrow>
                     (case WriteBytes fu h1 f buffer len of
                        (written, h2) \<Rightarrow>
                          (Some (Inr written), if flush then Flush fu h2 f else h2)))))"

subsection \<open>DiskDirectory\<close>

text \<open>
  A \<^verbatim>\<open>DiskDirectory\<close> holds the resolved host path (\<^verbatim>\<open>path\<close>, here \<open>dpath\<close>), the
  scanned \<^verbatim>\<open>directory\<close> and \<^verbatim>\<open>children_iterator\<close>, an iterator into
  \<^verbatim>\<open>directory.children\<close>: the index of the child it points to, the length of the
  vector for \<^verbatim>\<open>cend()\<close>, and \<open>None\<close> while it is default-constructed, before
  \<^verbatim>\<open>Open\<close> assigns it. The constructor value-initialises \<^verbatim>\<open>directory\<close>.
\<close>

record DiskDirectory =
  dpath :: string
  directory :: FSTEntry
  children_iterator :: "nat option"

definition DiskDirectory_ctor :: "string \<Rightarrow> Path \<Rightarrow> DiskDirectory" where
  "DiskDirectory_ctor mount_point p =
     \<lparr>dpath = mount_point @ AsString p, directory = FSTEntry False 0 [] [] [],
      children_iterator = None\<rparr>"

definition DiskDirectory_Open ::
  "('h, 'f) FileUtil \<Rightarrow> 'h \<Rightarrow> DiskDirectory \<Rightarrow> bool \<times> DiskDirectory" where
  "DiskDirectory_Open fu h d =
     (if \<not> IsDirectory fu h (dpath d) then (False, d)
      else (case ScanDirectoryTree fu h (dpath d) (directory d) of
              (n, dir) \<Rightarrow>
                (True,
                 d\<lparr>directory :=
                      FSTEntry True (ucast n) (physicalName dir) (virtualName dir) (children dir),
                    children_iterator := Some 0\<rparr>)))"

definition OpenDirectory ::
  "('h, 'f) FileUtil \<Rightarrow> string \<Rightarrow> 'h \<Rightarrow> Path \<Rightarrow> DiskDirectory option" where
  "OpenDirectory fu mount_point h p =
     (case DiskDirectory_Open fu h (DiskDirectory_ctor mount_point p) of
        (ok, d) \<Rightarrow> if \<not> ok then None else Some d)"

text \<open>
  The copy loop of \<^verbatim>\<open>Read\<close>: at most \<^verbatim>\<open>FILENAME_LENGTH\<close> characters, up to and
  including the terminator. \<^verbatim>\<open>filename[j]\<close> at the end of a \<^verbatim>\<open>std::string\<close> is the
  zero character. \<^verbatim>\<open>FILENAME_LENGTH\<close> is declared outside the sources and is a
  parameter.
\<close>

fun copy_filename :: "nat \<Rightarrow> string \<Rightarrow> string" where
  "copy_filename 0 name = []"
| "copy_filename (Suc n) [] = [CHR 0x00]"
| "copy_filename (Suc n) (c # cs) = (if c = CHR 0x00 then [c] else c # copy_filename n cs)"

text \<open>
  The body of the loop of \<^verbatim>\<open>Read\<close>: the entry written for one child.
  \<^verbatim>\<open>filename[0]\<close> of an empty name is the zero character, which is not a dot.
\<close>

definition fill_entry :: "('h, 'f) FileUtil \<Rightarrow> nat \<Rightarrow> FSTEntry \<Rightarrow> Entry" where
  "fill_entry fu FILENAME_LENGTH child =
     (let name = virtualName child in
      \<lparr>filename = copy_filename FILENAME_LENGTH name,
       short_name = fst (SplitFilename83 fu name),
       extension = snd (SplitFilename83 fu name),
       is_directory = isDirectory child,
       is_hidden = (case name of [] \<Rightarrow> False | c # _ \<Rightarrow> c = CHR ''.''),
       is_read_only = False,
       is_archive = (\<not> isDirectory child),
       file_size = sizeF child\<rparr>)"

text \<open>
  The loop of \<^verbatim>\<open>Read\<close>. The list \<open>entries\<close> holds \<^verbatim>\<open>entries[0]\<close> to
  \<^verbatim>\<open>entries[entries_read - 1]\<close>, the part of the caller's array written so far.
\<close>

function Read_loop ::
  "(FSTEntry \<Rightarrow> Entry) \<Rightarrow> u32 \<Rightarrow> FSTEntry list \<Rightarrow> u32 \<Rightarrow> nat \<Rightarrow> Entry list
     \<Rightarrow> u32 \<times> nat \<times> Entry list" where
  "Read_loop fill count cs entries_read it entries =
     (if entries_read < count \<and> it \<noteq> length cs
      then Read_loop fill count cs (entries_read + 1) (Suc it) (entries @ [fill (cs ! it)])
      else (entries_read, it, entries))"
  by pat_completeness auto
termination
proof (relation "measure (\<lambda>(fill, count, cs, entries_read, it, entries).
        unat count - unat entries_read)")
  show "wf (measure (\<lambda>(fill :: FSTEntry \<Rightarrow> Entry, count :: u32, cs :: FSTEntry list,
        entries_read :: u32, it :: nat, entries :: Entry list). unat count - unat entries_read))"
    by simp
next
  fix fill :: "FSTEntry \<Rightarrow> Entry" and count entries_read :: u32
    and cs :: "FSTEntry list" and it :: nat and entries :: "Entry list"
  assume "entries_read < count \<and> it \<noteq> length cs"
  then have below: "entries_read < count" by simp
  then have "unat (entries_read + 1) = Suc (unat entries_read)" by unat_arith
  moreover from below have "unat entries_read < unat count" by (simp add: word_less_nat_alt)
  ultimately show "((fill, count, cs, entries_read + 1, Suc it, entries @ [fill (cs ! it)]),
      (fill, count, cs, entries_read, it, entries))
    \<in> measure (\<lambda>(fill, count, cs, entries_read, it, entries). unat count - unat entries_read)"
    by simp
qed

declare Read_loop.simps [simp del]

text \<open>
  \<^verbatim>\<open>Read\<close> returns the number of entries read, the entries written and the directory
  with its iterator advanced. With a default-constructed iterator the loop condition
  compares a singular iterator as soon as \<^verbatim>\<open>count\<close> is positive: undefined
  behaviour, the value \<open>None\<close>.
\<close>

definition DiskDirectory_Read ::
  "('h, 'f) FileUtil \<Rightarrow> nat \<Rightarrow> DiskDirectory \<Rightarrow> u32
     \<Rightarrow> (u32 \<times> Entry list \<times> DiskDirectory) option" where
  "DiskDirectory_Read fu FILENAME_LENGTH d count =
     (case children_iterator d of
        None \<Rightarrow> if 0 < count then None else Some (0, [], d)
      | Some it \<Rightarrow>
          (case Read_loop (fill_entry fu FILENAME_LENGTH) count (children (directory d)) 0 it [] of
             (entries_read, it', entries) \<Rightarrow>
               Some (entries_read, entries, d\<lparr>children_iterator := Some it'\<rparr>)))"

text \<open>
  The client loop of the listing property: \<open>k\<close> successive calls \<^verbatim>\<open>Read(1, entries)\<close>
  on one directory, with the return value and the entries of each call in order.
\<close>

fun Read_repeatedly ::
  "('h, 'f) FileUtil \<Rightarrow> nat \<Rightarrow> nat \<Rightarrow> DiskDirectory
     \<Rightarrow> ((u32 \<times> Entry list) list \<times> DiskDirectory) option" where
  "Read_repeatedly fu FILENAME_LENGTH 0 d = Some ([], d)"
| "Read_repeatedly fu FILENAME_LENGTH (Suc k) d =
     (case DiskDirectory_Read fu FILENAME_LENGTH d 1 of
        None \<Rightarrow> None
      | Some (n, es, d') \<Rightarrow>
          (case Read_repeatedly fu FILENAME_LENGTH k d' of
             None \<Rightarrow> None
           | Some (rs, d'') \<Rightarrow> Some ((n, es) # rs, d'')))"

subsection \<open>A host confined to given paths\<close>

text \<open>
  \<open>confined ok ok2 f0 fu\<close> is the host \<open>fu\<close> with every call that takes a path
  guarded: a call with a path that \<open>ok\<close> rejects (for \<^verbatim>\<open>Rename\<close>, a pair of paths that
  \<open>ok2\<close> rejects) does not reach \<open>fu\<close>; it answers false (a scan finds nothing, an
  open yields the object \<open>f0\<close>) and leaves the state as it is. An operation that
  behaves on \<open>confined ok ok2 f0 fu\<close> as on \<open>fu\<close>, for every \<open>fu\<close> and \<open>f0\<close>, hands the
  host only paths that \<open>ok\<close> accepts.
\<close>

definition confined ::
  "(string \<Rightarrow> bool) \<Rightarrow> (string \<Rightarrow> string \<Rightarrow> bool) \<Rightarrow> 'f \<Rightarrow> ('h, 'f) FileUtil
     \<Rightarrow> ('h, 'f) FileUtil" where
  "confined ok ok2 f0 fu =
     fu\<lparr>IsDirectory := (\<lambda>h p. if ok p then IsDirectory fu h p else False),
        Exists := (\<lambda>h p. if ok p then Exists fu h p else False),
        Delete := (\<lambda>h p. if ok p then Delete fu h p else (False, h)),
        DeleteDir := (\<lambda>h p. if ok p then DeleteDir fu h p else (False, h)),
        Rename := (\<lambda>h p q. if ok2 p q then Rename fu h p q else (False, h)),
        CreateEmptyFile := (\<lambda>h p. if ok p then CreateEmptyFile fu h p else (False, h)),
        CreateDir := (\<lambda>h p. if ok p then CreateDir fu h p else (False, h)),
        ScanDirectoryTree := (\<lambda>h p e. if ok p then ScanDirectoryTree fu h p e else (0, e)),
        IOFile := (\<lambda>h p ms. if ok p then IOFile fu h p ms else (f0, h))\<rparr>"

subsection \<open>An in-memory host\<close>

text \<open>
  A small host to run the operations on. Its backing store is an association list from
  host paths to nodes. \<open>writable\<close> is false on a read-only medium, where creating,
  deleting and writing fail; \<open>unreadable\<close> lists the paths the host refuses to open for
  reading. An \<^verbatim>\<open>IOFile\<close> is the index of its entry (path and position) in \<open>handles\<close>,
  or \<open>None\<close> when the open failed. The scan lists the immediate children of a
  directory.
\<close>

datatype node = Directory | Regular "u8 list"

record mem =
  store :: "(string \<times> node) list"
  writable :: bool
  unreadable :: "string list"
  handles :: "(string \<times> nat) option list"

definition m_IsDirectory :: "mem \<Rightarrow> string \<Rightarrow> bool" where
  "m_IsDirectory h p = (map_of (store h) p = Some Directory)"

definition m_Exists :: "mem \<Rightarrow> string \<Rightarrow> bool" where
  "m_Exists h p = (map_of (store h) p \<noteq> None)"

definition m_Delete :: "mem \<Rightarrow> string \<Rightarrow> bool \<times> mem" where
  "m_Delete h p =
     (case map_of (store h) p of
        Some (Regular bytes) \<Rightarrow>
          if writable h then (True, h\<lparr>store := AList.delete p (store h)\<rparr>) else (False, h)
      | _ \<Rightarrow> (False, h))"

definition m_DeleteDir :: "mem \<Rightarrow> string \<Rightarrow> bool \<times> mem" where
  "m_DeleteDir h p =
     (if m_IsDirectory h p \<and> writable h then (True, h\<lparr>store := AList.delete p (store h)\<rparr>)
      else (False, h))"

definition m_Rename :: "mem \<Rightarrow> string \<Rightarrow> string \<Rightarrow> bool \<times> mem" where
  "m_Rename h p q =
     (case map_of (store h) p of
        Some n \<Rightarrow>
          if writable h \<and> \<not> m_Exists h q
          then (True, h\<lparr>store := AList.update q n (AList.delete p (store h))\<rparr>)
          else (False, h)
      | None \<Rightarrow> (False, h))"

definition m_CreateEmptyFile :: "mem \<Rightarrow> string \<Rightarrow> bool \<times> mem" where
  "m_CreateEmptyFile h p =
     (if writable h \<and> \<not> m_IsDirectory h p
      then (True, h\<lparr>store := AList.update p (Regular []) (store h)\<rparr>)
      else (False, h))"

definition m_CreateDir :: "mem \<Rightarrow> string \<Rightarrow> bool \<times> mem" where
  "m_CreateDir h p =
     (if writable h \<and> \<not> m_Exists h p
      then (True, h\<lparr>store := AList.update p Directory (store h)\<rparr>)
      else (False, h))"

fun strip_prefix :: "string \<Rightarrow> string \<Rightarrow> string option" where
  "strip_prefix [] ys = Some ys"
| "strip_prefix (x # xs) [] = None"
| "strip_prefix (x # xs) (y # ys) = (if x = y then strip_prefix xs ys else None)"

fun m_child :: "string \<Rightarrow> string \<times> node \<Rightarrow> FSTEntry list" where
  "m_child dir (p, n) =
     (case strip_prefix (dir @ ''/'') p of
        None \<Rightarrow> []
      | Some name \<Rightarrow>
          if name = [] \<or> CHR ''/'' \<in> set name then []
          else (case n of
                  Directory \<Rightarrow> [FSTEntry True 0 p name []]
                | Regular bytes \<Rightarrow> [FSTEntry False (of_nat (length bytes)) p name []]))"

definition m_ScanDirectoryTree :: "mem \<Rightarrow> string \<Rightarrow> FSTEntry \<Rightarrow> u32 \<times> FSTEntry" where
  "m_ScanDirectoryTree h dir e =
     (let found = concat (map (m_child dir) (store h)) in
      (of_nat (length found),
       FSTEntry (isDirectory e) (sizeF e) (physicalName e) (virtualName e)
         (children e @ found)))"

definition m_SplitFilename83 :: "string \<Rightarrow> string \<times> string" where
  "m_SplitFilename83 name =
     (take 8 (takeWhile (\<lambda>c. c \<noteq> CHR ''.'') name),
      take 3 (drop 1 (dropWhile (\<lambda>c. c \<noteq> CHR ''.'') name)))"

definition m_open :: "mem \<Rightarrow> string \<Rightarrow> nat option \<times> mem" where
  "m_open h p = (Some (length (handles h)), h\<lparr>handles := handles h @ [Some (p, 0)]\<rparr>)"

definition m_IOFile :: "mem \<Rightarrow> string \<Rightarrow> string \<Rightarrow> nat option \<times> mem" where
  "m_IOFile h p ms =
     (if ms = ''wb''
      then (if writable h \<and> \<not> m_IsDirectory h p
            then m_open (h\<lparr>store := AList.update p (Regular []) (store h)\<rparr>) p
            else (None, h))
      else if ms = ''rb'' \<or> ms = ''r+b''
      then (case map_of (store h) p of
              Some (Regular bytes) \<Rightarrow>
                if p \<in> set (unreadable h) \<or> (ms = ''r+b'' \<and> \<not> writable h) then (None, h)
                else m_open h p
            | _ \<Rightarrow> (None, h))
      else (None, h))"

definition m_handle :: "mem \<Rightarrow> nat option \<Rightarrow> (nat \<times> string \<times> nat) option" where
  "m_handle h f =
     (case f of
        None \<Rightarrow> None
      | Some i \<Rightarrow>
          if i < length (handles h)
          then (case handles h ! i of None \<Rightarrow> None | Some (p, pos) \<Rightarrow> Some (i, p, pos))
          else None)"

definition m_IOFile_dtor :: "mem \<Rightarrow> nat option \<Rightarrow> mem" where
  "m_IOFile_dtor h f =
     (case f of None \<Rightarrow> h | Some i \<Rightarrow> h\<lparr>handles := (handles h)[i := None]\<rparr>)"

definition m_IsOpen :: "mem \<Rightarrow> nat option \<Rightarrow> bool" where
  "m_IsOpen h f = (m_handle h f \<noteq> None)"

definition m_Seek :: "mem \<Rightarrow> nat option \<Rightarrow> u64 \<Rightarrow> SeekOrigin \<Rightarrow> bool \<times> mem" where
  "m_Seek h f off origin =
     (case m_handle h f of
        None \<Rightarrow> (False, h)
      | Some (i, p, pos) \<Rightarrow>
          if origin = SEEK_SET \<and> 0 \<le> sint off
          then (True, h\<lparr>handles := (handles h)[i := Some (p, unat off)]\<rparr>)
          else (False, h))"

definition m_ReadBytes :: "mem \<Rightarrow> nat option \<Rightarrow> nat \<Rightarrow> (nat \<times> u8 list) \<times> mem" where
  "m_ReadBytes h f len =
     (case m_handle h f of
        None \<Rightarrow> ((0, []), h)
      | Some (i, p, pos) \<Rightarrow>
          (case map_of (store h) p of
             Some (Regular bytes) \<Rightarrow>
               (let data = take len (drop pos bytes) in
                ((length data, data),
                 h\<lparr>handles := (handles h)[i := Some (p, pos + length data)]\<rparr>))
           | _ \<Rightarrow> ((0, []), h)))"

definition m_WriteBytes :: "mem \<Rightarrow> nat option \<Rightarrow> u8 list \<Rightarrow> nat \<Rightarrow> nat \<times> mem" where
  "m_WriteBytes h f buffer len =
     (case m_handle h f of
        None \<Rightarrow> (0, h)
      | Some (i, p, pos) \<Rightarrow>
          (case map_of (store h) p of
             Some (Regular bytes) \<Rightarrow>
               if writable h
               then (let data = take len buffer;
                         bytes' = take pos (bytes @ replicate (pos - length bytes) 0) @ data
                                    @ drop (pos + length data) bytes
                     in (length data,
                         h\<lparr>store := AList.update p (Regular bytes') (store h),
                           handles := (handles h)[i := Some (p, pos + length data)]\<rparr>))
               else (0, h)
           | _ \<Rightarrow> (0, h)))"

definition mem_host :: "(mem, nat option) FileUtil" where
  "mem_host =
     \<lparr>IsDirectory = m_IsDirectory, Exists = m_Exists, Delete = m_Delete,
      DeleteDir = m_DeleteDir, Rename = m_Rename, CreateEmptyFile = m_CreateEmptyFile,
      CreateDir = m_CreateDir, ScanDirectoryTree = m_ScanDirectoryTree,
      SplitFilename83 = m_SplitFilename83, IOFile = m_IOFile, IOFile_dtor = m_IOFile_dtor,
      IsOpen = m_IsOpen, Seek = m_Seek, ReadBytes = m_ReadBytes, WriteBytes = m_WriteBytes,
      Flush = (\<lambda>h f. h)\<rparr>"

text \<open>
  A card mounted at \<^verbatim>\<open>/sd\<close> with a directory \<^verbatim>\<open>/sd/dir\<close>, a file \<^verbatim>\<open>/sd/a.txt\<close> of three
  bytes and a hidden file \<^verbatim>\<open>/sd/.cfg\<close>; the same card where \<^verbatim>\<open>/sd/new\<close> and
  \<^verbatim>\<open>/sd/a.txt\<close> cannot be opened for reading; and the same card write-protected.
\<close>

definition sdcard :: mem where
  "sdcard =
     \<lparr>store = [(''/sd'', Directory), (''/sd/dir'', Directory),
               (''/sd/a.txt'', Regular [0x41, 0x42, 0x43]), (''/sd/.cfg'', Regular [])],
      writable = True, unreadable = [], handles = []\<rparr>"

definition sdcard_noread :: mem where
  "sdcard_noread = sdcard\<lparr>unreadable := [''/sd/new'', ''/sd/a.txt'']\<rparr>"

definition sdcard_protected :: mem where
  "sdcard_protected = sdcard\<lparr>writable := False\<rparr>"

text \<open>The cursor that opening the root of the card yields.\<close>

definition sd_listing :: DiskDirectory where
  "sd_listing = snd (DiskDirectory_Open mem_host sdcard (DiskDirectory_ctor ''/sd'' (Path [])))"

section \<open>Properties\<close>

text \<open>The definitions of the in-memory host and of the result codes, for evaluation.\<close>

lemmas mem_defs = mem_host_def m_IsDirectory_def m_Exists_def m_Delete_def m_DeleteDir_def
  m_Rename_def m_CreateEmptyFile_def m_CreateDir_def m_ScanDirectoryTree_def
  m_SplitFilename83_def m_open_def m_IOFile_def m_handle_def m_IOFile_dtor_def m_IsOpen_def
  m_Seek_def m_ReadBytes_def m_WriteBytes_def sdcard_def sdcard_noread_def
  sdcard_protected_def

lemmas code_defs = E_NotAFile_def E_NotFound_def E_AlreadyExists_def E_InvalidOpenFlags_def
  E_TooLarge_def

subsection \<open>Deleting a file\<close>

text \<open>
  C4: \<^verbatim>\<open>DeleteFile(path)\<close> fails \<^verbatim>\<open>NotAFile\<close> when the resolved path is a directory
  (whatever the existence check would say), fails \<^verbatim>\<open>NotFound\<close> when it is not a
  directory and does not exist, and otherwise calls the host's delete: it returns
  success when that call succeeds and \<^verbatim>\<open>NotAFile\<close> when it fails. The two early
  failures leave the host untouched.
\<close>

theorem DeleteFile_checks:
  "(IsDirectory fu h (mount_point @ AsString p) \<longrightarrow>
      DeleteFile fu mount_point h p = (E_NotAFile, h)) \<and>
   (\<not> IsDirectory fu h (mount_point @ AsString p) \<and>
    \<not> Exists fu h (mount_point @ AsString p) \<longrightarrow>
      DeleteFile fu mount_point h p = (E_NotFound, h)) \<and>
   (\<not> IsDirectory fu h (mount_point @ AsString p) \<and>
    Exists fu h (mount_point @ AsString p) \<and>
    fst (Delete fu h (mount_point @ AsString p)) \<longrightarrow>
      DeleteFile fu mount_point h p =
        (RESULT_SUCCESS, snd (Delete fu h (mount_point @ AsString p)))) \<and>
   (\<not> IsDirectory fu h (mount_point @ AsString p) \<and>
    Exists fu h (mount_point @ AsString p) \<and>
    \<not> fst (Delete fu h (mount_point @ AsString p)) \<longrightarrow>
      DeleteFile fu mount_point h p =
        (E_NotAFile, snd (Delete fu h (mount_point @ AsString p))))"
  by (simp add: DeleteFile_def Let_def split: prod.split)

theorem DeleteFile_checks_witness:
  "DeleteFile mem_host ''/sd'' sdcard (Path ''/dir'') = (E_NotAFile, sdcard) \<and>
   DeleteFile mem_host ''/sd'' sdcard (Path ''/nope'') = (E_NotFound, sdcard) \<and>
   fst (DeleteFile mem_host ''/sd'' sdcard (Path ''/a.txt'')) = RESULT_SUCCESS \<and>
   \<not> Exists mem_host (snd (DeleteFile mem_host ''/sd'' sdcard (Path ''/a.txt''))) ''/sd/a.txt'' \<and>
   DeleteFile mem_host ''/sd'' sdcard_protected (Path ''/a.txt'') = (E_NotAFile, sdcard_protected)"
proof -
  have dir: "IsDirectory mem_host sdcard (''/sd'' @ AsString (Path ''/dir''))"
    by (simp add: mem_defs)
  have nope: "\<not> IsDirectory mem_host sdcard (''/sd'' @ AsString (Path ''/nope'')) \<and>
      \<not> Exists mem_host sdcard (''/sd'' @ AsString (Path ''/nope''))"
    by (simp add: mem_defs)
  have del: "\<not> IsDirectory mem_host sdcard (''/sd'' @ AsString (Path ''/a.txt'')) \<and>
      Exists mem_host sdcard (''/sd'' @ AsString (Path ''/a.txt'')) \<and>
      fst (Delete mem_host sdcard (''/sd'' @ AsString (Path ''/a.txt'')))"
    by (simp add: mem_defs)
  have gone: "\<not> Exists mem_host
      (snd (Delete mem_host sdcard (''/sd'' @ AsString (Path ''/a.txt'')))) ''/sd/a.txt''"
    by (simp add: mem_defs AList.delete_eq)
  have prot: "\<not> IsDirectory mem_host sdcard_protected (''/sd'' @ AsString (Path ''/a.txt'')) \<and>
      Exists mem_host sdcard_protected (''/sd'' @ AsString (Path ''/a.txt'')) \<and>
      \<not> fst (Delete mem_host sdcard_protected (''/sd'' @ AsString (Path ''/a.txt'')))"
    by (simp add: mem_defs)
  have same: "snd (Delete mem_host sdcard_protected (''/sd'' @ AsString (Path ''/a.txt'')))
      = sdcard_protected"
    by (simp add: mem_defs)
  note t = DeleteFile_checks [where fu = mem_host and mount_point = "''/sd''"]
  from t [of sdcard "Path ''/dir''"] dir
  have 1: "DeleteFile mem_host ''/sd'' sdcard (Path ''/dir'') = (E_NotAFile, sdcard)"
    by blast
  from t [of sdcard "Path ''/nope''"] nope
  have 2: "DeleteFile mem_host ''/sd'' sdcard (Path ''/nope'') = (E_NotFound, sdcard)"
    by blast
  from t [of sdcard "Path ''/a.txt''"] del
  have 3: "DeleteFile mem_host ''/sd'' sdcard (Path ''/a.txt'') =
      (RESULT_SUCCESS, snd (Delete mem_host sdcard (''/sd'' @ AsString (Path ''/a.txt''))))"
    by blast
  from t [of sdcard_protected "Path ''/a.txt''"] prot
  have 4: "DeleteFile mem_host ''/sd'' sdcard_protected (Path ''/a.txt'') =
      (E_NotAFile, snd (Delete mem_host sdcard_protected (''/sd'' @ AsString (Path ''/a.txt''))))"
    by blast
  from 1 2 3 4 gone same show ?thesis by simp
qed

subsection \<open>Creating a file\<close>

text \<open>
  C1: \<^verbatim>\<open>CreateFile(path, size)\<close> fails \<^verbatim>\<open>NotAFile\<close> when a directory occupies the
  resolved path and \<^verbatim>\<open>AlreadyExists\<close> when something else exists there. Otherwise, for
  size 0 it has the host create an empty file and succeeds; for a positive size it
  opens the path with mode \<^verbatim>\<open>"wb"\<close>, seeks to offset \<^verbatim>\<open>size - 1\<close> from the start and,
  if the seek succeeded, writes one zero byte: it succeeds exactly when the seek
  succeeds and the write reports one byte, and returns \<^verbatim>\<open>TooLarge\<close>
  (out of resource) otherwise.
\<close>

theorem CreateFile_cases:
  "(IsDirectory fu h (mount_point @ AsString p) \<longrightarrow>
      CreateFile fu mount_point h p sz = (E_NotAFile, h)) \<and>
   (\<not> IsDirectory fu h (mount_point @ AsString p) \<and> Exists fu h (mount_point @ AsString p) \<longrightarrow>
      CreateFile fu mount_point h p sz = (E_AlreadyExists, h)) \<and>
   (\<not> IsDirectory fu h (mount_point @ AsString p) \<and>
    \<not> Exists fu h (mount_point @ AsString p) \<and> sz = 0 \<longrightarrow>
      CreateFile fu mount_point h p sz =
        (RESULT_SUCCESS, snd (CreateEmptyFile fu h (mount_point @ AsString p)))) \<and>
   (\<not> IsDirectory fu h (mount_point @ AsString p) \<and>
    \<not> Exists fu h (mount_point @ AsString p) \<and> sz \<noteq> 0 \<longrightarrow>
      (let opened = IOFile fu h (mount_point @ AsString p) ''wb'';
           seek = Seek fu (snd opened) (fst opened) (sz - 1) SEEK_SET;
           write = WriteBytes fu (snd seek) (fst opened) [0] 1
       in fst (CreateFile fu mount_point h p sz) =
            (if fst seek \<and> fst write = 1 then RESULT_SUCCESS else E_TooLarge) \<and>
          snd (CreateFile fu mount_point h p sz) =
            IOFile_dtor fu (if fst seek then snd write else snd seek) (fst opened)))"
  by (simp add: CreateFile_def Let_def split: prod.split)

theorem CreateFile_cases_witness:
  "CreateFile mem_host ''/sd'' sdcard (Path ''/dir'') 4 = (E_NotAFile, sdcard) \<and>
   CreateFile mem_host ''/sd'' sdcard (Path ''/a.txt'') 4 = (E_AlreadyExists, sdcard) \<and>
   fst (CreateFile mem_host ''/sd'' sdcard (Path ''/new'') 0) = RESULT_SUCCESS \<and>
   map_of (store (snd (CreateFile mem_host ''/sd'' sdcard (Path ''/new'') 0))) ''/sd/new''
     = Some (Regular []) \<and>
   fst (CreateFile mem_host ''/sd'' sdcard (Path ''/new'') 4) = RESULT_SUCCESS \<and>
   map_of (store (snd (CreateFile mem_host ''/sd'' sdcard (Path ''/new'') 4))) ''/sd/new''
     = Some (Regular [0, 0, 0, 0]) \<and>
   fst (CreateFile mem_host ''/sd'' sdcard_protected (Path ''/new'') 4) = E_TooLarge"
proof -
  note t = CreateFile_cases [where fu = mem_host and mount_point = "''/sd''"]
  have dir: "IsDirectory mem_host sdcard (''/sd'' @ AsString (Path ''/dir''))"
    by (simp add: mem_defs)
  have old: "\<not> IsDirectory mem_host sdcard (''/sd'' @ AsString (Path ''/a.txt'')) \<and>
      Exists mem_host sdcard (''/sd'' @ AsString (Path ''/a.txt''))"
    by (simp add: mem_defs)
  have new: "\<not> IsDirectory mem_host sdcard (''/sd'' @ AsString (Path ''/new'')) \<and>
      \<not> Exists mem_host sdcard (''/sd'' @ AsString (Path ''/new''))"
    by (simp add: mem_defs)
  have new': "\<not> IsDirectory mem_host sdcard_protected (''/sd'' @ AsString (Path ''/new'')) \<and>
      \<not> Exists mem_host sdcard_protected (''/sd'' @ AsString (Path ''/new''))"
    by (simp add: mem_defs)
  from t [of sdcard "Path ''/dir''" 4] dir
  have 1: "CreateFile mem_host ''/sd'' sdcard (Path ''/dir'') 4 = (E_NotAFile, sdcard)"
    by blast
  from t [of sdcard "Path ''/a.txt''" 4] old
  have 2: "CreateFile mem_host ''/sd'' sdcard (Path ''/a.txt'') 4 = (E_AlreadyExists, sdcard)"
    by blast
  from t [of sdcard "Path ''/new''" 0] new
  have 3: "CreateFile mem_host ''/sd'' sdcard (Path ''/new'') 0 =
      (RESULT_SUCCESS, snd (CreateEmptyFile mem_host sdcard (''/sd'' @ AsString (Path ''/new''))))"
    by blast
  have c3: "map_of (store (snd (CreateEmptyFile mem_host sdcard
      (''/sd'' @ AsString (Path ''/new''))))) ''/sd/new'' = Some (Regular [])"
    by (simp add: mem_defs)
  have nz: "(4 :: u64) \<noteq> 0" by simp
  from t [of sdcard "Path ''/new''" 4] new nz
  have 4: "let opened = IOFile mem_host sdcard (''/sd'' @ AsString (Path ''/new'')) ''wb'';
           seek = Seek mem_host (snd opened) (fst opened) (4 - 1) SEEK_SET;
           write = WriteBytes mem_host (snd seek) (fst opened) [0] 1
       in fst (CreateFile mem_host ''/sd'' sdcard (Path ''/new'') 4) =
            (if fst seek \<and> fst write = 1 then RESULT_SUCCESS else E_TooLarge) \<and>
          snd (CreateFile mem_host ''/sd'' sdcard (Path ''/new'') 4) =
            IOFile_dtor mem_host (if fst seek then snd write else snd seek) (fst opened)"
    by blast
  have rep: "replicate 3 (0 :: u8) = [0, 0, 0]"
    by (simp add: numeral_3_eq_3)
  from 4 have c4: "fst (CreateFile mem_host ''/sd'' sdcard (Path ''/new'') 4) = RESULT_SUCCESS \<and>
      map_of (store (snd (CreateFile mem_host ''/sd'' sdcard (Path ''/new'') 4))) ''/sd/new''
        = Some (Regular [0, 0, 0, 0])"
    by (simp add: mem_defs Let_def rep)
  from t [of sdcard_protected "Path ''/new''" 4] new' nz
  have 5: "let opened = IOFile mem_host sdcard_protected (''/sd'' @ AsString (Path ''/new'')) ''wb'';
           seek = Seek mem_host (snd opened) (fst opened) (4 - 1) SEEK_SET;
           write = WriteBytes mem_host (snd seek) (fst opened) [0] 1
       in fst (CreateFile mem_host ''/sd'' sdcard_protected (Path ''/new'') 4) =
            (if fst seek \<and> fst write = 1 then RESULT_SUCCESS else E_TooLarge) \<and>
          snd (CreateFile mem_host ''/sd'' sdcard_protected (Path ''/new'') 4) =
            IOFile_dtor mem_host (if fst seek then snd write else snd seek) (fst opened)"
    by blast
  then have c5: "fst (CreateFile mem_host ''/sd'' sdcard_protected (Path ''/new'') 4) = E_TooLarge"
    by (simp add: mem_defs Let_def)
  from 1 2 3 c3 c4 c5 show ?thesis by simp
qed

text \<open>
  C10: once the directory check and the existence check have passed,
  \<^verbatim>\<open>CreateFile(path, 0)\<close> returns success whatever the host's empty-file creation
  answers, also when the host fails to create the file.
\<close>

theorem CreateFile_empty_ignores_host:
  "\<not> IsDirectory fu h (mount_point @ AsString p) \<Longrightarrow>
   \<not> Exists fu h (mount_point @ AsString p) \<Longrightarrow>
   fst (CreateFile fu mount_point h p 0) = RESULT_SUCCESS"
  by (simp add: CreateFile_def)

theorem CreateFile_empty_ignores_host_witness:
  "\<not> fst (CreateEmptyFile mem_host sdcard_protected ''/sd/new'') \<and>
   fst (CreateFile mem_host ''/sd'' sdcard_protected (Path ''/new'') 0) = RESULT_SUCCESS \<and>
   \<not> Exists mem_host (snd (CreateFile mem_host ''/sd'' sdcard_protected (Path ''/new'') 0))
     ''/sd/new''"
proof -
  have a: "\<not> IsDirectory mem_host sdcard_protected (''/sd'' @ AsString (Path ''/new''))"
    and b: "\<not> Exists mem_host sdcard_protected (''/sd'' @ AsString (Path ''/new''))"
    by (simp_all add: mem_defs)
  have c: "\<not> fst (CreateEmptyFile mem_host sdcard_protected ''/sd/new'')"
    by (simp add: mem_defs)
  have d: "\<not> Exists mem_host (snd (CreateFile mem_host ''/sd'' sdcard_protected (Path ''/new'') 0))
     ''/sd/new''"
    by (simp add: CreateFile_def mem_defs)
  from CreateFile_empty_ignores_host [OF a b] c d show ?thesis by simp
qed



subsection \<open>Opening a file\<close>

text \<open>
  C2, as the code has it: for a mode with \<^verbatim>\<open>create\<close> set and \<^verbatim>\<open>read\<close> and \<^verbatim>\<open>write\<close>
  unset, \<^verbatim>\<open>Open\<close> fails \<^verbatim>\<open>InvalidOpenFlags\<close> whether or not the path exists, unless
  the resolved path is a directory: the directory check comes first and the result is
  \<^verbatim>\<open>NotAFile\<close>. Neither failure touches the host or the handle.
\<close>

theorem Open_create_only:
  "create_flag (mode d) \<Longrightarrow> \<not> read_flag (mode d) \<Longrightarrow> \<not> write_flag (mode d) \<Longrightarrow>
   DiskFile_Open fu h d =
     (if IsDirectory fu h (path d) then E_NotAFile else E_InvalidOpenFlags, d, h)"
  by (simp add: DiskFile_Open_def)

theorem Open_create_only_witness:
  "DiskFile_Open mem_host sdcard
     (DiskFile_ctor ''/sd'' (Path ''/a.txt'')
        \<lparr>read_flag = False, write_flag = False, create_flag = True\<rparr>) =
     (E_InvalidOpenFlags,
      DiskFile_ctor ''/sd'' (Path ''/a.txt'')
        \<lparr>read_flag = False, write_flag = False, create_flag = True\<rparr>, sdcard) \<and>
   fst (DiskFile_Open mem_host sdcard
     (DiskFile_ctor ''/sd'' (Path ''/nope'')
        \<lparr>read_flag = False, write_flag = False, create_flag = True\<rparr>)) = E_InvalidOpenFlags"
proof -
  let ?m = "\<lparr>read_flag = False, write_flag = False, create_flag = True\<rparr>"
  let ?d = "DiskFile_ctor ''/sd'' (Path ''/a.txt'') ?m :: nat option DiskFile"
  let ?e = "DiskFile_ctor ''/sd'' (Path ''/nope'') ?m :: nat option DiskFile"
  have c: "create_flag (mode ?d)" and r: "\<not> read_flag (mode ?d)" and w: "\<not> write_flag (mode ?d)"
    by (simp_all add: DiskFile_ctor_def)
  have c': "create_flag (mode ?e)" and r': "\<not> read_flag (mode ?e)" and w': "\<not> write_flag (mode ?e)"
    by (simp_all add: DiskFile_ctor_def)
  have nd: "\<not> IsDirectory mem_host sdcard (path ?d)" "\<not> IsDirectory mem_host sdcard (path ?e)"
    by (simp_all add: DiskFile_ctor_def mem_defs)
  from Open_create_only [OF c r w, of mem_host sdcard]
       Open_create_only [OF c' r' w', of mem_host sdcard] nd
  show ?thesis by simp
qed

text \<open>
  The claim as stated, that a create-only \<^verbatim>\<open>Open\<close> fails \<^verbatim>\<open>InvalidOpenFlags\<close> also on a
  directory, fails on the directory \<^verbatim>\<open>/sd/dir\<close>.
\<close>

theorem Open_create_only_counterexample:
  "fst (DiskFile_Open mem_host sdcard
     (DiskFile_ctor ''/sd'' (Path ''/dir'')
        \<lparr>read_flag = False, write_flag = False, create_flag = True\<rparr>)) = E_NotAFile \<and>
   E_NotAFile \<noteq> E_InvalidOpenFlags"
  by (simp add: DiskFile_Open_def DiskFile_ctor_def mem_defs code_defs)

text \<open>
  C3: for a path that does not exist on the backing store (a host reports no
  directory where it reports nothing), \<^verbatim>\<open>Open\<close> without \<^verbatim>\<open>create\<close> fails \<^verbatim>\<open>NotFound\<close>
  and touches nothing; with \<^verbatim>\<open>create\<close> and \<^verbatim>\<open>read\<close> or \<^verbatim>\<open>write\<close> the host's
  empty-file creation runs first, and the host open is attempted on the state that
  creation leaves.
\<close>

theorem Open_missing_path:
  assumes "\<not> Exists fu h (path d)"
    and "IsDirectory fu h (path d) \<Longrightarrow> Exists fu h (path d)"
  shows "(\<not> create_flag (mode d) \<longrightarrow> DiskFile_Open fu h d = (E_NotFound, d, h)) \<and>
    (create_flag (mode d) \<and> (read_flag (mode d) \<or> write_flag (mode d)) \<longrightarrow>
      (let created = snd (CreateEmptyFile fu h (path d));
           opened = IOFile fu created (path d) (mode_string (mode d));
           h' = reset_file fu (snd opened) (iofile d)
       in DiskFile_Open fu h d =
            (if IsOpen fu h' (fst opened) then RESULT_SUCCESS else E_NotFound,
             d\<lparr>iofile := Some (fst opened)\<rparr>, h')))"
proof -
  from assms have "\<not> IsDirectory fu h (path d)" by blast
  with assms(1) show ?thesis
    by (auto simp: DiskFile_Open_def Let_def split: prod.split)
qed

theorem Open_missing_path_witness:
  "DiskFile_Open mem_host sdcard
     (DiskFile_ctor ''/sd'' (Path ''/new'')
        \<lparr>read_flag = True, write_flag = False, create_flag = False\<rparr>) =
     (E_NotFound,
      DiskFile_ctor ''/sd'' (Path ''/new'')
        \<lparr>read_flag = True, write_flag = False, create_flag = False\<rparr>, sdcard) \<and>
   fst (DiskFile_Open mem_host sdcard
     (DiskFile_ctor ''/sd'' (Path ''/new'')
        \<lparr>read_flag = True, write_flag = False, create_flag = True\<rparr>)) = RESULT_SUCCESS \<and>
   map_of (store (snd (snd (DiskFile_Open mem_host sdcard
     (DiskFile_ctor ''/sd'' (Path ''/new'')
        \<lparr>read_flag = True, write_flag = False, create_flag = True\<rparr>))))) ''/sd/new''
     = Some (Regular [])"
proof -
  let ?m = "\<lparr>read_flag = True, write_flag = False, create_flag = False\<rparr>"
  let ?n = "\<lparr>read_flag = True, write_flag = False, create_flag = True\<rparr>"
  let ?d = "DiskFile_ctor ''/sd'' (Path ''/new'') ?m :: nat option DiskFile"
  let ?e = "DiskFile_ctor ''/sd'' (Path ''/new'') ?n :: nat option DiskFile"
  have a: "\<not> Exists mem_host sdcard (path ?d)" and a': "\<not> Exists mem_host sdcard (path ?e)"
    by (simp_all add: DiskFile_ctor_def mem_defs)
  have b: "IsDirectory mem_host sdcard (path ?d) \<Longrightarrow> Exists mem_host sdcard (path ?d)"
    and b': "IsDirectory mem_host sdcard (path ?e) \<Longrightarrow> Exists mem_host sdcard (path ?e)"
    by (simp_all add: DiskFile_ctor_def mem_defs)
  have 1: "DiskFile_Open mem_host sdcard ?d = (E_NotFound, ?d, sdcard)"
    using Open_missing_path [OF a b] by (simp add: DiskFile_ctor_def)
  have "let created = snd (CreateEmptyFile mem_host sdcard (path ?e));
           opened = IOFile mem_host created (path ?e) (mode_string (mode ?e));
           h' = reset_file mem_host (snd opened) (iofile ?e)
       in DiskFile_Open mem_host sdcard ?e =
            (if IsOpen mem_host h' (fst opened) then RESULT_SUCCESS else E_NotFound,
             ?e\<lparr>iofile := Some (fst opened)\<rparr>, h')"
    using Open_missing_path [OF a' b'] by (simp add: DiskFile_ctor_def)
  then have 2: "fst (DiskFile_Open mem_host sdcard ?e) = RESULT_SUCCESS \<and>
      map_of (store (snd (snd (DiskFile_Open mem_host sdcard ?e)))) ''/sd/new''
        = Some (Regular [])"
    by (simp add: DiskFile_ctor_def mode_string_def reset_file_def mem_defs Let_def)
  from 1 2 show ?thesis by simp
qed

text \<open>
  \<^verbatim>\<open>OpenFile\<close> written out in the host calls it makes.
\<close>

lemma OpenFile_at:
  "OpenFile fu mount_point h p m =
     (if IsDirectory fu h (mount_point @ AsString p) then (Inl E_NotAFile, h)
      else if create_flag m \<and> \<not> read_flag m \<and> \<not> write_flag m
      then (Inl E_InvalidOpenFlags, h)
      else if \<not> Exists fu h (mount_point @ AsString p) \<and> \<not> create_flag m
      then (Inl E_NotFound, h)
      else (let h1 = (if \<not> Exists fu h (mount_point @ AsString p)
                      then snd (CreateEmptyFile fu h (mount_point @ AsString p)) else h);
                opened = IOFile fu h1 (mount_point @ AsString p) (mode_string m)
            in if IsOpen fu (snd opened) (fst opened)
               then (Inr \<lparr>path = mount_point @ AsString p, mode = m,
                          iofile = Some (fst opened)\<rparr>, snd opened)
               else (Inl E_NotFound, IOFile_dtor fu (snd opened) (fst opened))))"
  by (simp add: OpenFile_def DiskFile_Open_def DiskFile_ctor_def IsError_def reset_file_def
        Let_def code_defs split: prod.split)

text \<open>
  C5, as the code has it: a failed \<^verbatim>\<open>OpenFile\<close> leaves the host as it was, except in
  the branch that creates the file (the path is neither a directory nor present, and
  \<^verbatim>\<open>create\<close> is set with \<^verbatim>\<open>read\<close> or \<^verbatim>\<open>write\<close>): there the host is left exactly as
  its empty-file creation left it, so the file created before the open remains. The
  host is taken to undo nothing and do nothing when an open fails: a failed open
  followed by the destruction of its \<^verbatim>\<open>IOFile\<close> leaves the state it found.
\<close>

theorem OpenFile_failure_frame:
  assumes "fst (OpenFile fu mount_point h p m) = Inl e"
    and "\<And>h0 f h'. IOFile fu h0 (mount_point @ AsString p) (mode_string m) = (f, h') \<Longrightarrow>
           \<not> IsOpen fu h' f \<Longrightarrow> IOFile_dtor fu h' f = h0"
  shows "snd (OpenFile fu mount_point h p m) =
    (if \<not> IsDirectory fu h (mount_point @ AsString p) \<and>
        \<not> Exists fu h (mount_point @ AsString p) \<and>
        create_flag m \<and> (read_flag m \<or> write_flag m)
     then snd (CreateEmptyFile fu h (mount_point @ AsString p))
     else h)"
proof -
  let ?q = "mount_point @ AsString p"
  let ?h1 = "if \<not> Exists fu h ?q then snd (CreateEmptyFile fu h ?q) else h"
  note eq = OpenFile_at [of fu mount_point h p m, unfolded Let_def]
  show ?thesis
  proof (cases "IsDirectory fu h ?q \<or>
      (create_flag m \<and> \<not> read_flag m \<and> \<not> write_flag m) \<or>
      (\<not> Exists fu h ?q \<and> \<not> create_flag m)")
    case True
    then show ?thesis
      unfolding eq by auto
  next
    case False
    obtain f h2 where o: "IOFile fu ?h1 ?q (mode_string m) = (f, h2)"
      by (cases "IOFile fu ?h1 ?q (mode_string m)")
    from False have c1: "IsDirectory fu h ?q = False"
      and c2: "(create_flag m \<and> \<not> read_flag m \<and> \<not> write_flag m) = False"
      and c3: "(\<not> Exists fu h ?q \<and> \<not> create_flag m) = False"
      by simp_all
    have "OpenFile fu mount_point h p m =
        (if IsOpen fu (snd (IOFile fu ?h1 ?q (mode_string m))) (fst (IOFile fu ?h1 ?q (mode_string m)))
         then (Inr \<lparr>path = ?q, mode = m, iofile = Some (fst (IOFile fu ?h1 ?q (mode_string m)))\<rparr>,
               snd (IOFile fu ?h1 ?q (mode_string m)))
         else (Inl E_NotFound,
               IOFile_dtor fu (snd (IOFile fu ?h1 ?q (mode_string m)))
                 (fst (IOFile fu ?h1 ?q (mode_string m)))))"
      by (simp only: eq c1 c2 c3 if_False)
    then have res: "OpenFile fu mount_point h p m =
        (if IsOpen fu h2 f then (Inr \<lparr>path = ?q, mode = m, iofile = Some f\<rparr>, h2)
         else (Inl E_NotFound, IOFile_dtor fu h2 f))"
      unfolding o by simp
    with assms(1) have closed: "\<not> IsOpen fu h2 f"
      by (auto split: if_splits)
    with res have "snd (OpenFile fu mount_point h p m) = IOFile_dtor fu h2 f"
      by simp
    also from assms(2) [OF o closed] have "IOFile_dtor fu h2 f = ?h1" .
    finally show ?thesis using False by auto
  qed
qed

theorem OpenFile_failure_frame_witness:
  "fst (OpenFile mem_host ''/sd'' sdcard_noread (Path ''/a.txt'')
          \<lparr>read_flag = True, write_flag = False, create_flag = True\<rparr>) = Inl E_NotFound \<and>
   snd (OpenFile mem_host ''/sd'' sdcard_noread (Path ''/a.txt'')
          \<lparr>read_flag = True, write_flag = False, create_flag = True\<rparr>) = sdcard_noread \<and>
   fst (OpenFile mem_host ''/sd'' sdcard_noread (Path ''/new'')
          \<lparr>read_flag = True, write_flag = False, create_flag = True\<rparr>) = Inl E_NotFound \<and>
   snd (OpenFile mem_host ''/sd'' sdcard_noread (Path ''/new'')
          \<lparr>read_flag = True, write_flag = False, create_flag = True\<rparr>) =
     sdcard_noread\<lparr>store := store sdcard_noread @ [(''/sd/new'', Regular [])]\<rparr>"
proof -
  let ?m = "\<lparr>read_flag = True, write_flag = False, create_flag = True\<rparr>"
  have quiet: "\<And>q h0 f h'. IOFile mem_host h0 q (mode_string ?m) = (f, h') \<Longrightarrow>
           \<not> IsOpen mem_host h' f \<Longrightarrow> IOFile_dtor mem_host h' f = h0"
    by (auto simp: mode_string_def mem_host_def m_IOFile_def m_open_def m_IsOpen_def
          m_handle_def m_IOFile_dtor_def split: option.splits node.splits if_splits)
  have failed: "fst (OpenFile mem_host ''/sd'' sdcard_noread (Path ''/a.txt'') ?m) = Inl E_NotFound"
    by (simp add: OpenFile_def DiskFile_Open_def DiskFile_ctor_def IsError_def reset_file_def
          mode_string_def Let_def code_defs mem_defs)
  have failed': "fst (OpenFile mem_host ''/sd'' sdcard_noread (Path ''/new'') ?m) = Inl E_NotFound"
    by (simp add: OpenFile_def DiskFile_Open_def DiskFile_ctor_def IsError_def reset_file_def
          mode_string_def Let_def code_defs mem_defs)
  have existed: "\<not> IsDirectory mem_host sdcard_noread (''/sd'' @ AsString (Path ''/a.txt'')) \<and>
      Exists mem_host sdcard_noread (''/sd'' @ AsString (Path ''/a.txt''))"
    by (simp add: mem_defs)
  have missing: "\<not> IsDirectory mem_host sdcard_noread (''/sd'' @ AsString (Path ''/new'')) \<and>
      \<not> Exists mem_host sdcard_noread (''/sd'' @ AsString (Path ''/new'')) \<and>
      create_flag ?m \<and> (read_flag ?m \<or> write_flag ?m)"
    by (simp add: mem_defs)
  have created: "snd (CreateEmptyFile mem_host sdcard_noread (''/sd'' @ AsString (Path ''/new''))) =
      sdcard_noread\<lparr>store := store sdcard_noread @ [(''/sd/new'', Regular [])]\<rparr>"
    by (simp add: mem_defs)
  from OpenFile_failure_frame [OF failed quiet] existed
  have 1: "snd (OpenFile mem_host ''/sd'' sdcard_noread (Path ''/a.txt'') ?m) = sdcard_noread"
    by simp
  from OpenFile_failure_frame [OF failed' quiet] missing
  have "snd (OpenFile mem_host ''/sd'' sdcard_noread (Path ''/new'') ?m) =
      snd (CreateEmptyFile mem_host sdcard_noread (''/sd'' @ AsString (Path ''/new'')))"
    by simp
  with created
  have 2: "snd (OpenFile mem_host ''/sd'' sdcard_noread (Path ''/new'') ?m) =
      sdcard_noread\<lparr>store := store sdcard_noread @ [(''/sd/new'', Regular [])]\<rparr>"
    by simp
  from failed failed' 1 2 show ?thesis by blast
qed

text \<open>
  The claim as stated, that every failed \<^verbatim>\<open>OpenFile\<close> leaves the backing store
  unchanged, fails where the new file cannot be opened for reading: \<^verbatim>\<open>OpenFile\<close> with
  \<^verbatim>\<open>create\<close> and \<^verbatim>\<open>read\<close> returns \<^verbatim>\<open>NotFound\<close> and \<^verbatim>\<open>/sd/new\<close> exists afterwards.
\<close>

theorem OpenFile_failure_counterexample:
  "fst (OpenFile mem_host ''/sd'' sdcard_noread (Path ''/new'')
          \<lparr>read_flag = True, write_flag = False, create_flag = True\<rparr>) = Inl E_NotFound \<and>
   \<not> Exists mem_host sdcard_noread ''/sd/new'' \<and>
   Exists mem_host
     (snd (OpenFile mem_host ''/sd'' sdcard_noread (Path ''/new'')
             \<lparr>read_flag = True, write_flag = False, create_flag = True\<rparr>)) ''/sd/new'' \<and>
   snd (OpenFile mem_host ''/sd'' sdcard_noread (Path ''/new'')
          \<lparr>read_flag = True, write_flag = False, create_flag = True\<rparr>) \<noteq> sdcard_noread"
  by (simp add: OpenFile_def DiskFile_Open_def DiskFile_ctor_def IsError_def reset_file_def
        mode_string_def Let_def code_defs mem_defs)


subsection \<open>Reading and writing an open file\<close>

text \<open>
  C6: on an opened handle, \<^verbatim>\<open>Read\<close> returns an error exactly when neither \<^verbatim>\<open>read\<close> nor
  \<^verbatim>\<open>write\<close> is set and \<^verbatim>\<open>Write\<close> exactly when \<^verbatim>\<open>write\<close> is unset; the error is
  \<^verbatim>\<open>InvalidOpenFlags\<close> in both. A handle opened with \<^verbatim>\<open>write\<close> can be read: \<^verbatim>\<open>Read\<close>
  seeks and returns what the host read.
\<close>

theorem Read_Write_flags:
  assumes "iofile d = Some f"
  shows "((\<exists>e. fst (DiskFile_Read fu h d offset len) = Some (Inl e)) \<longleftrightarrow>
            \<not> read_flag (mode d) \<and> \<not> write_flag (mode d)) \<and>
         (\<forall>e. fst (DiskFile_Read fu h d offset len) = Some (Inl e) \<longrightarrow> e = E_InvalidOpenFlags) \<and>
         ((\<exists>e. fst (DiskFile_Write fu h d offset len flush buffer) = Some (Inl e)) \<longleftrightarrow>
            \<not> write_flag (mode d)) \<and>
         (\<forall>e. fst (DiskFile_Write fu h d offset len flush buffer) = Some (Inl e) \<longrightarrow>
            e = E_InvalidOpenFlags) \<and>
         (write_flag (mode d) \<longrightarrow>
            fst (DiskFile_Read fu h d offset len) =
              Some (Inr (fst (ReadBytes fu (snd (Seek fu h f offset SEEK_SET)) f len))))"
  using assms
  by (auto simp: DiskFile_Read_def DiskFile_Write_def split: prod.splits)

theorem Read_Write_flags_witness:
  "OpenFile mem_host ''/sd'' sdcard (Path ''/a.txt'')
      \<lparr>read_flag = False, write_flag = True, create_flag = False\<rparr> =
     (Inr \<lparr>path = ''/sd/a.txt'',
           mode = \<lparr>read_flag = False, write_flag = True, create_flag = False\<rparr>,
           iofile = Some (Some 0)\<rparr>,
      sdcard\<lparr>handles := [Some (''/sd/a.txt'', 0)]\<rparr>) \<and>
   fst (DiskFile_Read mem_host (sdcard\<lparr>handles := [Some (''/sd/a.txt'', 0)]\<rparr>)
          \<lparr>path = ''/sd/a.txt'',
           mode = \<lparr>read_flag = False, write_flag = True, create_flag = False\<rparr>,
           iofile = Some (Some 0)\<rparr> 0 3) = Some (Inr (3, [0x41, 0x42, 0x43])) \<and>
   fst (DiskFile_Write mem_host (sdcard\<lparr>handles := [Some (''/sd/a.txt'', 0)]\<rparr>)
          \<lparr>path = ''/sd/a.txt'',
           mode = \<lparr>read_flag = True, write_flag = False, create_flag = False\<rparr>,
           iofile = Some (Some 0)\<rparr> 0 1 False [0x5A]) = Some (Inl E_InvalidOpenFlags)"
proof -
  let ?h = "sdcard\<lparr>handles := [Some (''/sd/a.txt'', 0)]\<rparr>"
  let ?w = "\<lparr>path = ''/sd/a.txt'',
           mode = \<lparr>read_flag = False, write_flag = True, create_flag = False\<rparr>,
           iofile = Some (Some (0 :: nat))\<rparr>"
  let ?r = "\<lparr>path = ''/sd/a.txt'',
           mode = \<lparr>read_flag = True, write_flag = False, create_flag = False\<rparr>,
           iofile = Some (Some (0 :: nat))\<rparr>"
  have opened: "OpenFile mem_host ''/sd'' sdcard (Path ''/a.txt'')
      \<lparr>read_flag = False, write_flag = True, create_flag = False\<rparr> = (Inr ?w, ?h)"
    by (simp add: OpenFile_def DiskFile_Open_def DiskFile_ctor_def IsError_def reset_file_def
          mode_string_def Let_def mem_defs)
  have w: "iofile ?w = Some (Some 0)" and r: "iofile ?r = Some (Some 0)" by simp_all
  from Read_Write_flags [OF w, of mem_host ?h 0 3]
  have "fst (DiskFile_Read mem_host ?h ?w 0 3) =
      Some (Inr (fst (ReadBytes mem_host (snd (Seek mem_host ?h (Some 0) 0 SEEK_SET)) (Some 0) 3)))"
    by simp
  then have 1: "fst (DiskFile_Read mem_host ?h ?w 0 3) = Some (Inr (3, [0x41, 0x42, 0x43]))"
    by (simp add: mem_defs)
  from Read_Write_flags [OF r, of mem_host ?h 0 1 False "[0x5A]"]
  obtain e where "fst (DiskFile_Write mem_host ?h ?r 0 1 False [0x5A]) = Some (Inl e)"
    and "e = E_InvalidOpenFlags"
    by auto
  then have 2: "fst (DiskFile_Write mem_host ?h ?r 0 1 False [0x5A]) = Some (Inl E_InvalidOpenFlags)"
    by simp
  from opened 1 2 show ?thesis by simp
qed

subsection \<open>Listing a directory\<close>

text \<open>
  The loop of \<^verbatim>\<open>Read\<close> in closed form: from a valid iterator it writes the entries of
  the next \<open>min count (length cs - it)\<close> children, in order.
\<close>

lemma unat_succ_below: "(x :: u32) < y \<Longrightarrow> unat (x + 1) = Suc (unat x)"
  by unat_arith

lemma Read_loop_unfold:
  "Read_loop fill count cs entries_read it entries =
     (if entries_read < count \<and> it \<noteq> length cs
      then Read_loop fill count cs (entries_read + 1) (Suc it) (entries @ [fill (cs ! it)])
      else (entries_read, it, entries))"
  by (rule Read_loop.simps)

lemma Read_loop_spec:
  "it \<le> length cs \<Longrightarrow> unat entries_read \<le> unat count \<Longrightarrow>
   Read_loop fill count cs entries_read it entries =
     (entries_read + of_nat (min (unat count - unat entries_read) (length cs - it)),
      it + min (unat count - unat entries_read) (length cs - it),
      entries @ map fill (take (min (unat count - unat entries_read) (length cs - it))
        (drop it cs)))"
proof (induction fill count cs entries_read it entries rule: Read_loop.induct)
  case (1 fill count cs entries_read it entries)
  show ?case
  proof (cases "entries_read < count \<and> it \<noteq> length cs")
    case True
    then have lt: "entries_read < count" and ne: "it \<noteq> length cs" by simp_all
    from lt have u: "unat (entries_read + 1) = Suc (unat entries_read)"
      by (rule unat_succ_below)
    from lt have ul: "unat entries_read < unat count" by (simp only: word_less_nat_alt)
    from ne "1.prems" have il: "it < length cs" by simp
    let ?n = "min (unat count - unat (entries_read + 1)) (length cs - Suc it)"
    have n: "min (unat count - unat entries_read) (length cs - it) = Suc ?n"
      using ul il unfolding u by simp
    have d: "take (Suc ?n) (drop it cs) = cs ! it # take ?n (drop (Suc it) cs)"
      using il by (simp add: Cons_nth_drop_Suc [symmetric])
    have p1: "Suc it \<le> length cs" using il by simp
    have p2: "unat (entries_read + 1) \<le> unat count" using ul unfolding u by simp
    have IH: "Read_loop fill count cs (entries_read + 1) (Suc it) (entries @ [fill (cs ! it)]) =
      (entries_read + 1 + of_nat ?n, Suc it + ?n,
       (entries @ [fill (cs ! it)]) @ map fill (take ?n (drop (Suc it) cs)))"
      by (rule "1.IH" [OF True p1 p2])
    have step: "Read_loop fill count cs entries_read it entries =
        Read_loop fill count cs (entries_read + 1) (Suc it) (entries @ [fill (cs ! it)])"
      using True by (subst Read_loop_unfold) simp
    have w: "entries_read + 1 + of_nat ?n = entries_read + of_nat (Suc ?n)"
      by simp
    show ?thesis
      unfolding n d step IH w by simp
  next
    case False
    then have z: "min (unat count - unat entries_read) (length cs - it) = 0"
      using "1.prems" by (auto simp: word_less_nat_alt)
    have stop: "Read_loop fill count cs entries_read it entries = (entries_read, it, entries)"
      using False by (subst Read_loop_unfold) auto
    show ?thesis unfolding z stop by simp
  qed
qed


lemma unat_of_nat_min: "unat (of_nat (min (unat (count :: u32)) k) :: u32) = min (unat count) k"
proof -
  have "min (unat count) k \<le> unat count" by simp
  also have "unat count < 2 ^ 32" using unsigned_less [of count] by simp
  finally show ?thesis by (simp add: le_unat_uoi [of _ count])
qed

lemma Read_spec:
  assumes "children_iterator d = Some it" and "it \<le> length (children (directory d))"
  shows "DiskDirectory_Read fu FILENAME_LENGTH d count =
    Some (of_nat (min (unat count) (length (children (directory d)) - it)),
          map (fill_entry fu FILENAME_LENGTH)
            (take (min (unat count) (length (children (directory d)) - it))
               (drop it (children (directory d)))),
          d\<lparr>children_iterator :=
              Some (it + min (unat count) (length (children (directory d)) - it))\<rparr>)"
  using assms by (simp add: DiskDirectory_Read_def Read_loop_spec)


lemma Read_repeatedly_spec:
  "children_iterator d = Some it \<Longrightarrow> it \<le> length (children (directory d)) \<Longrightarrow>
   Read_repeatedly fu FL k d =
     Some (map (\<lambda>c. (1, [fill_entry fu FL c])) (take k (drop it (children (directory d))))
             @ replicate (k - (length (children (directory d)) - it)) (0, []),
           d\<lparr>children_iterator := Some (min (it + k) (length (children (directory d))))\<rparr>)"
proof (induction k arbitrary: d it)
  case 0
  then have "d\<lparr>children_iterator := Some it\<rparr> = d" by simp
  with 0 show ?case by (simp add: min_absorb1)
next
  case (Suc k)
  let ?cs = "children (directory d)"
  show ?case
  proof (cases "it < length ?cs")
    case True
    then have m: "min (unat (1 :: u32)) (length ?cs - it) = 1" by simp
    let ?d' = "d\<lparr>children_iterator := Some (it + 1)\<rparr>"
    have r: "DiskDirectory_Read fu FL d 1 = Some (1, [fill_entry fu FL (?cs ! it)], ?d')"
      using Read_spec [OF Suc.prems, of fu FL 1] True unfolding m
      by (simp add: take_Suc_conv_app_nth Cons_nth_drop_Suc [symmetric])
    have "Read_repeatedly fu FL k ?d' =
      Some (map (\<lambda>c. (1, [fill_entry fu FL c])) (take k (drop (it + 1) (children (directory ?d'))))
             @ replicate (k - (length (children (directory ?d')) - (it + 1))) (0, []),
           ?d'\<lparr>children_iterator := Some (min (it + 1 + k) (length (children (directory ?d'))))\<rparr>)"
      using True by (intro Suc.IH) simp_all
    then show ?thesis
      using True r by (simp add: Cons_nth_drop_Suc [symmetric] Suc_diff_le)
  next
    case False
    with Suc.prems have e: "it = length ?cs" by simp
    then have m: "min (unat (1 :: u32)) (length ?cs - it) = 0" by simp
    let ?d' = "d\<lparr>children_iterator := Some (it + 0)\<rparr>"
    have r: "DiskDirectory_Read fu FL d 1 = Some (0, [], ?d')"
      using Read_spec [OF Suc.prems, of fu FL 1] unfolding m by simp
    have "Read_repeatedly fu FL k ?d' =
      Some (map (\<lambda>c. (1, [fill_entry fu FL c])) (take k (drop it (children (directory ?d'))))
             @ replicate (k - (length (children (directory ?d')) - it)) (0, []),
           ?d'\<lparr>children_iterator := Some (min (it + k) (length (children (directory ?d'))))\<rparr>)"
      using e by (intro Suc.IH) simp_all
    then show ?thesis
      using e r by (simp add: replicate_app_Cons_same)
  qed
qed

lemma Open_fresh:
  "DiskDirectory_Open fu h d0 = (True, d) \<Longrightarrow> children_iterator d = Some 0"
  by (auto simp: DiskDirectory_Open_def split: if_splits prod.splits)

text \<open>The cursor over the root of the card, evaluated.\<close>

lemma sd_listing_children:
  "children (directory sd_listing) =
     [FSTEntry True 0 ''/sd/dir'' ''dir'' [], FSTEntry False 3 ''/sd/a.txt'' ''a.txt'' [],
      FSTEntry False 0 ''/sd/.cfg'' ''.cfg'' []]"
  "children_iterator sd_listing = Some 0"
  "DiskDirectory_Open mem_host sdcard (DiskDirectory_ctor ''/sd'' (Path [])) = (True, sd_listing)"
  by (simp_all add: sd_listing_def DiskDirectory_Open_def DiskDirectory_ctor_def mem_defs)

text \<open>
  C7: the listing is exhaustive and non-repeating. On a cursor that \<^verbatim>\<open>Open\<close> has just
  produced, over a snapshot of \<open>k\<close> children, \<open>k + extra\<close> successive calls \<^verbatim>\<open>Read(1)\<close>
  return one entry each for the children in snapshot order and then zero entries for
  every further call. In general \<^verbatim>\<open>Read(count)\<close> returns a number that is at most
  \<^verbatim>\<open>count\<close> (the smaller of \<^verbatim>\<open>count\<close> and the number of children left), writes that
  many entries starting at the cursor, and advances the cursor by that number.
\<close>

theorem Read_listing:
  "(DiskDirectory_Open fu h d0 = (True, d) \<longrightarrow>
      (\<exists>d'. Read_repeatedly fu FL (length (children (directory d)) + extra) d =
         Some (map (\<lambda>c. (1, [fill_entry fu FL c])) (children (directory d))
                 @ replicate extra (0, []), d'))) \<and>
   (children_iterator c = Some it \<and> it \<le> length (children (directory c)) \<longrightarrow>
      (\<exists>ret. DiskDirectory_Read fu FL c count =
         Some (ret,
               map (fill_entry fu FL) (take (unat ret) (drop it (children (directory c)))),
               c\<lparr>children_iterator := Some (it + unat ret)\<rparr>) \<and>
         unat ret = min (unat count) (length (children (directory c)) - it)))"
proof (intro conjI impI)
  assume "DiskDirectory_Open fu h d0 = (True, d)"
  then have "children_iterator d = Some 0" by (rule Open_fresh)
  from Read_repeatedly_spec [OF this, of fu FL "length (children (directory d)) + extra"]
  show "\<exists>d'. Read_repeatedly fu FL (length (children (directory d)) + extra) d =
         Some (map (\<lambda>c. (1, [fill_entry fu FL c])) (children (directory d))
                 @ replicate extra (0, []), d')"
    by simp
next
  assume "children_iterator c = Some it \<and> it \<le> length (children (directory c))"
  then have a: "children_iterator c = Some it" and b: "it \<le> length (children (directory c))"
    by simp_all
  show "\<exists>ret. DiskDirectory_Read fu FL c count =
         Some (ret,
               map (fill_entry fu FL) (take (unat ret) (drop it (children (directory c)))),
               c\<lparr>children_iterator := Some (it + unat ret)\<rparr>) \<and>
         unat ret = min (unat count) (length (children (directory c)) - it)"
    using Read_spec [OF a b, of fu FL count] by (simp add: unat_of_nat_min)
qed

theorem Read_listing_witness:
  "map fst (fst (the (Read_repeatedly mem_host 262 5 sd_listing))) = [1, 1, 1, 0, 0] \<and>
   map (map short_name \<circ> snd) (fst (the (Read_repeatedly mem_host 262 5 sd_listing))) =
     [[''dir''], [''a''], [[]], [], []] \<and>
   fst (the (DiskDirectory_Read mem_host 262 sd_listing 2)) = 2 \<and>
   map short_name (fst (snd (the (DiskDirectory_Read mem_host 262 sd_listing 2)))) =
     [''dir'', ''a''] \<and>
   children_iterator (snd (snd (the (DiskDirectory_Read mem_host 262 sd_listing 2)))) = Some 2"
proof -
  note t = Read_listing [of mem_host sdcard "DiskDirectory_ctor ''/sd'' (Path [])" sd_listing
      262 2 sd_listing 0 2]
  have len: "length (children (directory sd_listing)) + 2 = 5"
    by (simp add: sd_listing_children)
  from t sd_listing_children(3)
  obtain d' where "Read_repeatedly mem_host 262 (length (children (directory sd_listing)) + 2)
      sd_listing =
    Some (map (\<lambda>c. (1, [fill_entry mem_host 262 c])) (children (directory sd_listing))
            @ replicate 2 (0, []), d')"
    by blast
  then have 1: "fst (the (Read_repeatedly mem_host 262 5 sd_listing)) =
      map (\<lambda>c. (1, [fill_entry mem_host 262 c])) (children (directory sd_listing))
        @ replicate 2 (0, [])"
    unfolding len by simp
  from t sd_listing_children(2)
  obtain ret where r: "DiskDirectory_Read mem_host 262 sd_listing 2 =
      Some (ret,
            map (fill_entry mem_host 262) (take (unat ret) (drop 0 (children (directory sd_listing)))),
            sd_listing\<lparr>children_iterator := Some (0 + unat ret)\<rparr>)"
    and u: "unat ret = min (unat (2 :: u32)) (length (children (directory sd_listing)) - 0)"
    by auto
  from u have u2: "unat ret = 2" by (simp add: sd_listing_children)
  have "ret = of_nat (unat ret)" by simp
  with u2 have "ret = 2" by simp
  have rep: "replicate 2 (0 :: u32, [] :: Entry list) = [(0, []), (0, [])]"
    by (simp add: numeral_2_eq_2)
  have tk: "take 2 (children (directory sd_listing)) =
     [FSTEntry True 0 ''/sd/dir'' ''dir'' [], FSTEntry False 3 ''/sd/a.txt'' ''a.txt'' []]"
    by (simp add: sd_listing_children numeral_2_eq_2)
  show ?thesis
    unfolding 1 r rep
    by (simp add: \<open>ret = 2\<close> u2 tk sd_listing_children fill_entry_def Let_def m_SplitFilename83_def
          mem_host_def)
qed

text \<open>
  C8: in every entry that \<^verbatim>\<open>Read\<close> produces, \<^verbatim>\<open>is_hidden\<close> holds exactly when the name
  of the child begins with a dot, \<^verbatim>\<open>is_archive\<close> holds exactly when the child is not a
  directory, and \<^verbatim>\<open>is_read_only\<close> is false.
\<close>

theorem Read_attributes:
  assumes "children_iterator d = Some it" and "it \<le> length (children (directory d))"
    and "DiskDirectory_Read fu FL d count = Some (ret, entries, d')"
    and "i < length entries"
  shows "it + i < length (children (directory d)) \<and>
    (is_hidden (entries ! i) \<longleftrightarrow>
       (\<exists>rest. virtualName (children (directory d) ! (it + i)) = CHR ''.'' # rest)) \<and>
    (is_archive (entries ! i) \<longleftrightarrow> \<not> isDirectory (children (directory d) ! (it + i))) \<and>
    \<not> is_read_only (entries ! i)"
proof -
  let ?cs = "children (directory d)"
  let ?n = "min (unat count) (length ?cs - it)"
  from Read_spec [OF assms(1,2), of fu FL count] assms(3)
  have es: "entries = map (fill_entry fu FL) (take ?n (drop it ?cs))" by simp
  with assms(4) have i: "i < ?n" by simp
  then have lt: "it + i < length ?cs" by arith
  from es i assms(2) have "entries ! i = fill_entry fu FL (?cs ! (it + i))" by simp
  with lt show ?thesis
    by (simp add: fill_entry_def Let_def split: list.split)
qed

theorem Read_attributes_witness:
  "virtualName (children (directory sd_listing) ! 2) = ''.cfg'' \<and>
   is_hidden (fst (snd (the (DiskDirectory_Read mem_host 262 sd_listing 3))) ! 2) \<and>
   is_archive (fst (snd (the (DiskDirectory_Read mem_host 262 sd_listing 3))) ! 2) \<and>
   \<not> is_read_only (fst (snd (the (DiskDirectory_Read mem_host 262 sd_listing 3))) ! 2) \<and>
   isDirectory (children (directory sd_listing) ! 0) \<and>
   \<not> is_hidden (fst (snd (the (DiskDirectory_Read mem_host 262 sd_listing 3))) ! 0) \<and>
   \<not> is_archive (fst (snd (the (DiskDirectory_Read mem_host 262 sd_listing 3))) ! 0)"
proof -
  let ?R = "DiskDirectory_Read mem_host 262 sd_listing 3"
  have it: "children_iterator sd_listing = Some 0"
    and le: "0 \<le> length (children (directory sd_listing))"
    by (simp_all add: sd_listing_children)
  have some: "?R = Some (fst (the ?R), fst (snd (the ?R)), snd (snd (the ?R)))"
    using Read_spec [OF it le, of mem_host 262 3] by simp
  have n: "length (fst (snd (the ?R))) = 3"
    using Read_spec [OF it le, of mem_host 262 3] by (simp add: sd_listing_children)
  then have i2: "2 < length (fst (snd (the ?R)))" and i0: "0 < length (fst (snd (the ?R)))"
    by simp_all
  have c2: "children (directory sd_listing) ! (0 + 2) = FSTEntry False 0 ''/sd/.cfg'' ''.cfg'' []"
    and c0: "children (directory sd_listing) ! (0 + 0) = FSTEntry True 0 ''/sd/dir'' ''dir'' []"
    by (simp_all add: sd_listing_children)
  from Read_attributes [OF it le some i2]
  have a2: "is_hidden (fst (snd (the ?R)) ! 2) \<and> is_archive (fst (snd (the ?R)) ! 2) \<and>
      \<not> is_read_only (fst (snd (the ?R)) ! 2)"
    unfolding c2 by simp
  from Read_attributes [OF it le some i0]
  have a0: "\<not> is_hidden (fst (snd (the ?R)) ! 0) \<and> \<not> is_archive (fst (snd (the ?R)) ! 0)"
    unfolding c0 by simp
  have names: "virtualName (children (directory sd_listing) ! 2) = ''.cfg''"
      "isDirectory (children (directory sd_listing) ! 0)"
    by (simp_all add: sd_listing_children)
  from a2 a0 names show ?thesis by blast
qed

subsection \<open>Resolving guest paths\<close>

lemma confined_sel:
  "IsDirectory (confined ok ok2 f0 fu) = (\<lambda>h p. if ok p then IsDirectory fu h p else False)"
  "Exists (confined ok ok2 f0 fu) = (\<lambda>h p. if ok p then Exists fu h p else False)"
  "Delete (confined ok ok2 f0 fu) = (\<lambda>h p. if ok p then Delete fu h p else (False, h))"
  "DeleteDir (confined ok ok2 f0 fu) = (\<lambda>h p. if ok p then DeleteDir fu h p else (False, h))"
  "Rename (confined ok ok2 f0 fu) = (\<lambda>h p q. if ok2 p q then Rename fu h p q else (False, h))"
  "CreateEmptyFile (confined ok ok2 f0 fu) =
     (\<lambda>h p. if ok p then CreateEmptyFile fu h p else (False, h))"
  "CreateDir (confined ok ok2 f0 fu) = (\<lambda>h p. if ok p then CreateDir fu h p else (False, h))"
  "ScanDirectoryTree (confined ok ok2 f0 fu) =
     (\<lambda>h p e. if ok p then ScanDirectoryTree fu h p e else (0, e))"
  "IOFile (confined ok ok2 f0 fu) = (\<lambda>h p ms. if ok p then IOFile fu h p ms else (f0, h))"
  "IOFile_dtor (confined ok ok2 f0 fu) = IOFile_dtor fu"
  "IsOpen (confined ok ok2 f0 fu) = IsOpen fu"
  "Seek (confined ok ok2 f0 fu) = Seek fu"
  "WriteBytes (confined ok ok2 f0 fu) = WriteBytes fu"
  by (simp_all add: confined_def)

lemma confined_DeleteFile:
  "DeleteFile (confined (\<lambda>q. q = mount_point @ AsString p) ok2 f0 fu) mount_point h p =
     DeleteFile fu mount_point h p"
  by (simp add: DeleteFile_def confined_sel Let_def)

lemma confined_CreateFile:
  "CreateFile (confined (\<lambda>q. q = mount_point @ AsString p) ok2 f0 fu) mount_point h p sz =
     CreateFile fu mount_point h p sz"
  by (simp add: CreateFile_def confined_sel Let_def split: prod.split)

lemma confined_DeleteDirectory:
  "DeleteDirectory (confined (\<lambda>q. q = mount_point @ AsString p) ok2 f0 fu) mount_point h p =
     DeleteDirectory fu mount_point h p"
  by (simp add: DeleteDirectory_def confined_sel)

lemma confined_CreateDirectory:
  "CreateDirectory (confined (\<lambda>q. q = mount_point @ AsString p) ok2 f0 fu) mount_point h p =
     CreateDirectory fu mount_point h p"
  by (simp add: CreateDirectory_def confined_sel)

lemma confined_reset_file:
  "reset_file (confined ok ok2 f0 fu) = reset_file fu"
  by (simp add: reset_file_def confined_sel fun_eq_iff split: option.split)

lemma confined_OpenFile:
  "OpenFile (confined (\<lambda>q. q = mount_point @ AsString p) ok2 f0 fu) mount_point h p m =
     OpenFile fu mount_point h p m"
  by (simp add: OpenFile_def DiskFile_Open_def DiskFile_ctor_def confined_sel
        confined_reset_file Let_def split: prod.split)

lemma confined_OpenDirectory:
  "OpenDirectory (confined (\<lambda>q. q = mount_point @ AsString p) ok2 f0 fu) mount_point h p =
     OpenDirectory fu mount_point h p"
  by (simp add: OpenDirectory_def DiskDirectory_Open_def DiskDirectory_ctor_def confined_sel)

lemma confined_RenameFile:
  "RenameFile (confined ok
       (\<lambda>a b. a = mount_point @ AsString src \<and> b = mount_point @ AsString dst) f0 fu)
       mount_point h src dst =
     RenameFile fu mount_point h src dst"
  by (simp add: RenameFile_def confined_sel)

lemma confined_RenameDirectory:
  "RenameDirectory (confined ok
       (\<lambda>a b. a = mount_point @ AsString src \<and> b = mount_point @ AsString dst) f0 fu)
       mount_point h src dst =
     RenameDirectory fu mount_point h src dst"
  by (simp add: RenameDirectory_def confined_sel)

lemma ctor_paths:
  "path (DiskFile_ctor mount_point p m) = mount_point @ AsString p"
  "dpath (DiskDirectory_ctor mount_point p) = mount_point @ AsString p"
  by (simp_all add: DiskFile_ctor_def DiskDirectory_ctor_def)

text \<open>
  Confinement is observable: on a host confined to no path at all, deleting an
  existing file fails.
\<close>

lemma confined_observable:
  "DeleteFile (confined (\<lambda>q. False) (\<lambda>a b. False) None mem_host) ''/sd'' sdcard
     (Path ''/a.txt'') = (E_NotFound, sdcard) \<and>
   fst (DeleteFile mem_host ''/sd'' sdcard (Path ''/a.txt'')) = RESULT_SUCCESS"
  by (simp add: DeleteFile_def confined_sel mem_defs)

text \<open>
  Each archive operation written out in the host calls it makes, all at the
  concatenation of the mount point and the string of the guest path.
\<close>

lemma DeleteFile_at:
  "DeleteFile fu mount_point h p =
     (if IsDirectory fu h (mount_point @ AsString p) then (E_NotAFile, h)
      else if \<not> Exists fu h (mount_point @ AsString p) then (E_NotFound, h)
      else (if fst (Delete fu h (mount_point @ AsString p)) then RESULT_SUCCESS else E_NotAFile,
            snd (Delete fu h (mount_point @ AsString p))))"
  by (simp add: DeleteFile_def Let_def split: prod.split)

lemma CreateFile_at:
  "CreateFile fu mount_point h p sz =
     (if IsDirectory fu h (mount_point @ AsString p) then (E_NotAFile, h)
      else if Exists fu h (mount_point @ AsString p) then (E_AlreadyExists, h)
      else if sz = 0
      then (RESULT_SUCCESS, snd (CreateEmptyFile fu h (mount_point @ AsString p)))
      else (let opened = IOFile fu h (mount_point @ AsString p) ''wb'';
                seek = Seek fu (snd opened) (fst opened) (sz - 1) SEEK_SET;
                write = WriteBytes fu (snd seek) (fst opened) [0] 1
            in (if fst seek \<and> fst write = 1 then RESULT_SUCCESS else E_TooLarge,
                IOFile_dtor fu (if fst seek then snd write else snd seek) (fst opened))))"
  by (simp add: CreateFile_def Let_def split: prod.split)

lemma OpenDirectory_at:
  "OpenDirectory fu mount_point h p =
     (if \<not> IsDirectory fu h (mount_point @ AsString p) then None
      else (let scanned = ScanDirectoryTree fu h (mount_point @ AsString p)
                            (FSTEntry False 0 [] [] [])
            in Some \<lparr>dpath = mount_point @ AsString p,
                     directory = FSTEntry True (ucast (fst scanned)) (physicalName (snd scanned))
                       (virtualName (snd scanned)) (children (snd scanned)),
                     children_iterator = Some 0\<rparr>))"
  by (simp add: OpenDirectory_def DiskDirectory_Open_def DiskDirectory_ctor_def Let_def
        split: prod.split)

lemma directory_calls_at:
  "DeleteDirectory fu mount_point h p = DeleteDir fu h (mount_point @ AsString p)"
  "CreateDirectory fu mount_point h p = CreateDir fu h (mount_point @ AsString p)"
  "RenameFile fu mount_point h src dst =
     Rename fu h (mount_point @ AsString src) (mount_point @ AsString dst)"
  "RenameDirectory fu mount_point h src dst =
     Rename fu h (mount_point @ AsString src) (mount_point @ AsString dst)"
  by (simp_all add: DeleteDirectory_def CreateDirectory_def RenameFile_def RenameDirectory_def)

lemma parent_segments_kept:
  "DeleteDirectory fu ''/sd'' h (Path ''/../etc'') = DeleteDir fu h ''/sd/../etc''"
  "RenameFile fu ''/sd'' h (Path ''/a/../b'') (Path ''/../../c'') =
     Rename fu h ''/sd/a/../b'' ''/sd/../../c''"
  "fst (DeleteFile fu ''/sd'' h (Path ''/../etc/passwd'')) =
     (if IsDirectory fu h ''/sd/../etc/passwd'' then E_NotAFile
      else if \<not> Exists fu h ''/sd/../etc/passwd'' then E_NotFound
      else if fst (Delete fu h ''/sd/../etc/passwd'') then RESULT_SUCCESS else E_NotAFile)"
  by (simp_all add: DeleteDirectory_def RenameFile_def DeleteFile_def Let_def split: prod.split)

text \<open>
  C9: every archive operation hands the host exactly the concatenation of the mount
  point and the string of the guest path. For every host, each operation is the
  sequence of host calls of its source, every one of them made at that concatenation
  (the renames at the two concatenations), and both constructors store it. No other
  path reaches a host call: each operation behaves on the host confined to that one
  path (for the renames, to that one pair) as on the host itself. Nothing is
  normalised: a guest path with parent-directory segments reaches the host calls with
  its segments.
\<close>

theorem paths_are_concatenations:
  "(let q = mount_point @ AsString p;
        qs = mount_point @ AsString src;
        qd = mount_point @ AsString dst
    in
     DeleteFile fu mount_point h p =
       (if IsDirectory fu h q then (E_NotAFile, h)
        else if \<not> Exists fu h q then (E_NotFound, h)
        else (if fst (Delete fu h q) then RESULT_SUCCESS else E_NotAFile, snd (Delete fu h q))) \<and>
     CreateFile fu mount_point h p sz =
       (if IsDirectory fu h q then (E_NotAFile, h)
        else if Exists fu h q then (E_AlreadyExists, h)
        else if sz = 0 then (RESULT_SUCCESS, snd (CreateEmptyFile fu h q))
        else (let opened = IOFile fu h q ''wb'';
                  seek = Seek fu (snd opened) (fst opened) (sz - 1) SEEK_SET;
                  write = WriteBytes fu (snd seek) (fst opened) [0] 1
              in (if fst seek \<and> fst write = 1 then RESULT_SUCCESS else E_TooLarge,
                  IOFile_dtor fu (if fst seek then snd write else snd seek) (fst opened)))) \<and>
     OpenFile fu mount_point h p m =
       (if IsDirectory fu h q then (Inl E_NotAFile, h)
        else if create_flag m \<and> \<not> read_flag m \<and> \<not> write_flag m
        then (Inl E_InvalidOpenFlags, h)
        else if \<not> Exists fu h q \<and> \<not> create_flag m then (Inl E_NotFound, h)
        else (let h1 = (if \<not> Exists fu h q then snd (CreateEmptyFile fu h q) else h);
                  opened = IOFile fu h1 q (mode_string m)
              in if IsOpen fu (snd opened) (fst opened)
                 then (Inr \<lparr>path = q, mode = m, iofile = Some (fst opened)\<rparr>, snd opened)
                 else (Inl E_NotFound, IOFile_dtor fu (snd opened) (fst opened)))) \<and>
     OpenDirectory fu mount_point h p =
       (if \<not> IsDirectory fu h q then None
        else (let scanned = ScanDirectoryTree fu h q (FSTEntry False 0 [] [] [])
              in Some \<lparr>dpath = q,
                       directory = FSTEntry True (ucast (fst scanned))
                         (physicalName (snd scanned)) (virtualName (snd scanned))
                         (children (snd scanned)),
                       children_iterator = Some 0\<rparr>)) \<and>
     DeleteDirectory fu mount_point h p = DeleteDir fu h q \<and>
     CreateDirectory fu mount_point h p = CreateDir fu h q \<and>
     RenameFile fu mount_point h src dst = Rename fu h qs qd \<and>
     RenameDirectory fu mount_point h src dst = Rename fu h qs qd \<and>
     path (DiskFile_ctor mount_point p m :: 'f DiskFile) = q \<and>
     dpath (DiskDirectory_ctor mount_point p) = q \<and>
     DeleteFile (confined (\<lambda>x. x = q) (\<lambda>a b. False) f0 fu) mount_point h p =
       DeleteFile fu mount_point h p \<and>
     CreateFile (confined (\<lambda>x. x = q) (\<lambda>a b. False) f0 fu) mount_point h p sz =
       CreateFile fu mount_point h p sz \<and>
     DeleteDirectory (confined (\<lambda>x. x = q) (\<lambda>a b. False) f0 fu) mount_point h p =
       DeleteDirectory fu mount_point h p \<and>
     CreateDirectory (confined (\<lambda>x. x = q) (\<lambda>a b. False) f0 fu) mount_point h p =
       CreateDirectory fu mount_point h p \<and>
     OpenFile (confined (\<lambda>x. x = q) (\<lambda>a b. False) f0 fu) mount_point h p m =
       OpenFile fu mount_point h p m \<and>
     OpenDirectory (confined (\<lambda>x. x = q) (\<lambda>a b. False) f0 fu) mount_point h p =
       OpenDirectory fu mount_point h p \<and>
     RenameFile (confined (\<lambda>x. False) (\<lambda>a b. a = qs \<and> b = qd) f0 fu) mount_point h src dst =
       RenameFile fu mount_point h src dst \<and>
     RenameDirectory (confined (\<lambda>x. False) (\<lambda>a b. a = qs \<and> b = qd) f0 fu)
         mount_point h src dst =
       RenameDirectory fu mount_point h src dst) \<and>
   DeleteDirectory fu ''/sd'' h (Path ''/../etc'') = DeleteDir fu h ''/sd/../etc'' \<and>
   RenameFile fu ''/sd'' h (Path ''/a/../b'') (Path ''/../../c'') =
     Rename fu h ''/sd/a/../b'' ''/sd/../../c'' \<and>
   fst (DeleteFile fu ''/sd'' h (Path ''/../etc/passwd'')) =
     (if IsDirectory fu h ''/sd/../etc/passwd'' then E_NotAFile
      else if \<not> Exists fu h ''/sd/../etc/passwd'' then E_NotFound
      else if fst (Delete fu h ''/sd/../etc/passwd'') then RESULT_SUCCESS else E_NotAFile)"
  unfolding Let_def
  apply (intro conjI)
                      apply (rule DeleteFile_at [unfolded Let_def])
                      apply (rule CreateFile_at [unfolded Let_def])
                      apply (rule OpenFile_at [unfolded Let_def])
                      apply (rule OpenDirectory_at [unfolded Let_def])
                      apply (rule directory_calls_at)+
                      apply (rule ctor_paths)+
                      apply (rule confined_DeleteFile)
                      apply (rule confined_CreateFile)
                      apply (rule confined_DeleteDirectory)
                      apply (rule confined_CreateDirectory)
                      apply (rule confined_OpenFile)
                      apply (rule confined_OpenDirectory)
                      apply (rule confined_RenameFile)
                      apply (rule confined_RenameDirectory)
                      apply (rule parent_segments_kept)+
  done

end
